theory Spec2Isabelle
  imports Main "HOL-Library.Char_ord" "HOL-Library.List_Lexorder"
begin

section \<open>Resource quantities and requirement lists\<close>

text \<open>
  \<open>resource.Quantity\<close> of the Kubernetes API machinery: a decimal amount
  (\<open>value * 10 ^ scale\<close>) together with the \<open>Format\<close> it is printed in. The
  library keeps the amount either as an \<open>int64\<close> with a scale or as an
  arbitrary-precision decimal; both are read here as an unbounded \<open>value\<close>
  with a \<open>scale\<close>. \<open>Format\<close> is a Go string type.
\<close>

record Quantity =
  qvalue :: int
  qscale :: int
  Format :: string

text \<open>The Go zero value \<open>resource.Quantity{}\<close>, which a map lookup of an absent key yields.\<close>

definition zeroQuantity :: Quantity where
  "zeroQuantity = \<lparr>qvalue = 0, qscale = 0, Format = ''''\<rparr>"

text \<open>\<open>IsZero\<close> of a quantity: the amount is zero, whatever scale and format.\<close>

definition IsZero :: "Quantity \<Rightarrow> bool" where
  "IsZero q = (qvalue q = 0)"

text \<open>\<open>v1.ResourceList\<close> is \<open>map[ResourceName]resource.Quantity\<close>; \<open>ResourceName\<close> is a string.\<close>

type_synonym ResourceList = "string \<rightharpoonup> Quantity"

definition ResourceCPU :: string where
  "ResourceCPU = ''cpu''"

definition ResourceMemory :: string where
  "ResourceMemory = ''memory''"

text \<open>
  \<open>Name\<close> of a \<open>ResourceList\<close>: a pointer to a copy of the entry when the key is present,
  otherwise a pointer to a fresh zero quantity of the default format. The pointer is
  never nil, so the model returns the quantity itself.
\<close>

definition Name_of :: "ResourceList \<Rightarrow> string \<Rightarrow> string \<Rightarrow> Quantity" where
  "Name_of rl name defaultFormat =
     (case rl name of
        Some val \<Rightarrow> val
      | None \<Rightarrow> \<lparr>qvalue = 0, qscale = 0, Format = defaultFormat\<rparr>)"

definition Cpu :: "ResourceList \<Rightarrow> Quantity" where
  "Cpu rl = Name_of rl ResourceCPU ''DecimalSI''"

definition Memory :: "ResourceList \<Rightarrow> Quantity" where
  "Memory rl = Name_of rl ResourceMemory ''BinarySI''"

text \<open>A Go map index expression \<open>m[k]\<close>: the zero value when the key is absent.\<close>

definition index_or_zero :: "ResourceList \<Rightarrow> string \<Rightarrow> Quantity" where
  "index_or_zero rl name = (case rl name of Some val \<Rightarrow> val | None \<Rightarrow> zeroQuantity)"

record ResourceRequirements =
  Limits :: ResourceList
  Requests :: ResourceList

section \<open>newResourceRequirements\<close>

text \<open>
  The four locals \<open>requestMem\<close>, \<open>limitMem\<close>, \<open>requestCPU\<close>, \<open>limitCPU\<close> are
  pointers that start as nil: \<open>None\<close> is nil. Dereferencing nil panics.
\<close>

datatype panic = NilPointerDereference

text \<open>
  The memory block of \<open>newResourceRequirements\<close> (from \<open>nodeLimitMem := ...\<close> to the
  end of its \<open>if\<close>): the pair \<open>(requestMem, limitMem)\<close> it leaves behind.
\<close>

definition resolveMem ::
  "ResourceRequirements \<Rightarrow> ResourceRequirements \<Rightarrow> ResourceRequirements
     \<Rightarrow> Quantity option \<times> Quantity option" where
  "resolveMem nodeResRequirements commonResRequirements defaultRequirements =
     (let nodeLimitMem = Memory (Limits nodeResRequirements);
          nodeRequestMem = Memory (Requests nodeResRequirements);
          commonLimitMem = Memory (Limits commonResRequirements);
          commonRequestMem = Memory (Requests commonResRequirements)
      in if IsZero commonRequestMem \<and> IsZero commonLimitMem then
           (if IsZero nodeRequestMem \<and> IsZero nodeLimitMem then
              (let lMem = index_or_zero (Limits defaultRequirements) ResourceMemory;
                   rMem = index_or_zero (Requests defaultRequirements) ResourceMemory
               in (Some rMem, Some lMem))
            else if IsZero nodeRequestMem then
              (Some nodeLimitMem, Some nodeLimitMem)
            else if IsZero nodeLimitMem then
              (Some nodeRequestMem, Some nodeRequestMem)
            else
              (Some nodeRequestMem, Some nodeLimitMem))
         else
           (let requestMem =
                  (if IsZero nodeRequestMem then
                     (if IsZero commonRequestMem then Some commonLimitMem
                      else Some commonRequestMem)
                   else Some nodeRequestMem);
                limitMem =
                  (if IsZero nodeLimitMem then
                     (if IsZero commonLimitMem then Some commonRequestMem
                      else Some commonLimitMem)
                   else Some nodeLimitMem)
            in (requestMem, limitMem)))"

text \<open>
  The CPU block: the pair \<open>(requestCPU, limitCPU)\<close>. \<open>limitCPU\<close> is assigned only
  from a non-zero workload or cluster CPU limit and stays nil otherwise.
\<close>

definition resolveCPU ::
  "ResourceRequirements \<Rightarrow> ResourceRequirements \<Rightarrow> ResourceRequirements
     \<Rightarrow> Quantity option \<times> Quantity option" where
  "resolveCPU nodeResRequirements commonResRequirements defaultRequirements =
     (let nodeLimitCPU = Cpu (Limits nodeResRequirements);
          nodeRequestCPU = Cpu (Requests nodeResRequirements);
          commonLimitCPU = Cpu (Limits commonResRequirements);
          commonRequestCPU = Cpu (Requests commonResRequirements)
      in if IsZero commonRequestCPU \<and> IsZero commonLimitCPU then
           (if IsZero nodeRequestCPU \<and> IsZero nodeLimitCPU then
              (let rCPU = index_or_zero (Requests defaultRequirements) ResourceCPU
               in (Some rCPU, None))
            else if IsZero nodeRequestCPU then
              (Some nodeLimitCPU, Some nodeLimitCPU)
            else if IsZero nodeLimitCPU then
              (Some nodeRequestCPU, None)
            else
              (Some nodeRequestCPU, Some nodeLimitCPU))
         else
           (let requestCPU =
                  (if IsZero nodeRequestCPU then
                     (if IsZero commonRequestCPU then Some commonLimitCPU
                      else Some commonRequestCPU)
                   else Some nodeRequestCPU);
                limitCPU =
                  (if IsZero nodeLimitCPU then
                     (if \<not> IsZero commonLimitCPU then Some commonLimitCPU
                      else None)
                   else Some nodeLimitCPU)
            in (requestCPU, limitCPU)))"

text \<open>
  The packaging at the end of \<open>newResourceRequirements\<close>: the two composite literals,
  chosen by \<open>limitCPU == nil\<close>; each dereference of a pointer panics on nil.
\<close>

definition newResourceRequirements ::
  "ResourceRequirements \<Rightarrow> ResourceRequirements \<Rightarrow> ResourceRequirements
     \<Rightarrow> panic + ResourceRequirements" where
  "newResourceRequirements nodeResRequirements commonResRequirements defaultRequirements =
     (case resolveMem nodeResRequirements commonResRequirements defaultRequirements of
        (requestMem, limitMem) \<Rightarrow>
     (case resolveCPU nodeResRequirements commonResRequirements defaultRequirements of
        (requestCPU, limitCPU) \<Rightarrow>
     (case limitCPU of
        None \<Rightarrow>
          (case (limitMem, requestCPU, requestMem) of
             (Some lm, Some rc, Some rm) \<Rightarrow>
               Inr \<lparr>Limits = [''memory'' \<mapsto> lm],
                    Requests = [''cpu'' \<mapsto> rc, ''memory'' \<mapsto> rm]\<rparr>
           | _ \<Rightarrow> Inl NilPointerDereference)
      | Some lc \<Rightarrow>
          (case (limitMem, requestCPU, requestMem) of
             (Some lm, Some rc, Some rm) \<Rightarrow>
               Inr \<lparr>Limits = [''cpu'' \<mapsto> lc, ''memory'' \<mapsto> lm],
                    Requests = [''cpu'' \<mapsto> rc, ''memory'' \<mapsto> rm]\<rparr>
           | _ \<Rightarrow> Inl NilPointerDereference))))"

section \<open>API objects\<close>

text \<open>
  \<open>metav1.TypeMeta\<close> and \<open>metav1.ObjectMeta\<close> are embedded in every API object; Go
  promotes their fields, as record extension does. Only the fields the code or the
  store contract speak of are kept. \<open>ResourceVersion\<close> is the revision token the
  store checks on update.
\<close>

datatype OwnerReference = OwnerReference string string string string

record KubeObject =
  Kind :: string
  APIVersion :: string
  Name :: string
  Namespace :: string
  ResourceVersion :: string
  Labels :: "string \<rightharpoonup> string"
  Annotations :: "string \<rightharpoonup> string"
  OwnerReferences :: "OwnerReference list"

text \<open>
  \<open>corev1.Secret\<close>. A \<open>[]byte\<close> is a \<open>char list\<close> (a \<open>char\<close> is one byte), so a Go
  string and a byte slice have the same model. A nil map and an empty map are both
  \<open>Map.empty\<close>.
\<close>

record Secret = KubeObject +
  Immutable :: "bool option"
  Data :: "string \<rightharpoonup> string"
  StringData :: "string \<rightharpoonup> string"
  SecretType :: string

text \<open>\<open>client.ObjectKey\<close> (\<open>types.NamespacedName\<close>).\<close>

record ObjectKey =
  KeyNamespace :: string
  KeyName :: string

text \<open>\<open>networking.NetworkPolicy\<close> with the parts of its spec that \<open>newNetworkPolicy\<close> fills.\<close>

datatype LabelSelector = LabelSelector "(string \<times> string) list"

datatype NetworkPolicyPeer = NetworkPolicyPeer "LabelSelector option" "LabelSelector option"

datatype NetworkPolicyPort = NetworkPolicyPort "string option" "int option"

datatype NetworkPolicyIngressRule =
  NetworkPolicyIngressRule "NetworkPolicyPeer list" "NetworkPolicyPort list"

datatype NetworkPolicySpec = NetworkPolicySpec LabelSelector "NetworkPolicyIngressRule list"

record NetworkPolicy = KubeObject +
  Spec :: NetworkPolicySpec

section \<open>Errors\<close>

text \<open>
  Go \<open>error\<close> values. \<open>StatusError\<close> is what the API store reports
  (\<open>apierrors.StatusError\<close>: the reason, the HTTP status code and the message of
  its \<open>metav1.Status\<close>); \<open>KVError\<close> is the result of
  \<open>kverrors.Wrap(err, msg, keysAndValues...)\<close>, which keeps \<open>err\<close> as its cause;
  \<open>PlainError\<close> is any other error without a cause. A nil error is \<open>None\<close> of
  \<open>error option\<close>.
\<close>

text \<open>\<open>metav1.StatusReason\<close> is a Go string type; these are its constants.\<close>

type_synonym StatusReason = string

abbreviation (input) StatusReasonUnknown :: StatusReason where
  "StatusReasonUnknown \<equiv> ''''"

abbreviation (input) StatusReasonUnauthorized :: StatusReason where
  "StatusReasonUnauthorized \<equiv> ''Unauthorized''"

abbreviation (input) StatusReasonForbidden :: StatusReason where
  "StatusReasonForbidden \<equiv> ''Forbidden''"

abbreviation (input) StatusReasonNotFound :: StatusReason where
  "StatusReasonNotFound \<equiv> ''NotFound''"

abbreviation (input) StatusReasonAlreadyExists :: StatusReason where
  "StatusReasonAlreadyExists \<equiv> ''AlreadyExists''"

abbreviation (input) StatusReasonConflict :: StatusReason where
  "StatusReasonConflict \<equiv> ''Conflict''"

abbreviation (input) StatusReasonGone :: StatusReason where
  "StatusReasonGone \<equiv> ''Gone''"

abbreviation (input) StatusReasonInvalid :: StatusReason where
  "StatusReasonInvalid \<equiv> ''Invalid''"

abbreviation (input) StatusReasonServerTimeout :: StatusReason where
  "StatusReasonServerTimeout \<equiv> ''ServerTimeout''"

abbreviation (input) StatusReasonTimeout :: StatusReason where
  "StatusReasonTimeout \<equiv> ''Timeout''"

abbreviation (input) StatusReasonTooManyRequests :: StatusReason where
  "StatusReasonTooManyRequests \<equiv> ''TooManyRequests''"

abbreviation (input) StatusReasonBadRequest :: StatusReason where
  "StatusReasonBadRequest \<equiv> ''BadRequest''"

abbreviation (input) StatusReasonMethodNotAllowed :: StatusReason where
  "StatusReasonMethodNotAllowed \<equiv> ''MethodNotAllowed''"

abbreviation (input) StatusReasonNotAcceptable :: StatusReason where
  "StatusReasonNotAcceptable \<equiv> ''NotAcceptable''"

abbreviation (input) StatusReasonRequestEntityTooLarge :: StatusReason where
  "StatusReasonRequestEntityTooLarge \<equiv> ''RequestEntityTooLarge''"

abbreviation (input) StatusReasonUnsupportedMediaType :: StatusReason where
  "StatusReasonUnsupportedMediaType \<equiv> ''UnsupportedMediaType''"

abbreviation (input) StatusReasonInternalError :: StatusReason where
  "StatusReasonInternalError \<equiv> ''InternalError''"

abbreviation (input) StatusReasonExpired :: StatusReason where
  "StatusReasonExpired \<equiv> ''Expired''"

abbreviation (input) StatusReasonServiceUnavailable :: StatusReason where
  "StatusReasonServiceUnavailable \<equiv> ''ServiceUnavailable''"

text \<open>
  \<open>knownReasons\<close> of package \<open>apierrors\<close>: the reasons for which the HTTP status
  code is not consulted. \<open>StatusReasonUnknown\<close> is not among them.
\<close>

definition knownReasons :: "StatusReason list" where
  "knownReasons =
     [StatusReasonUnauthorized, StatusReasonForbidden, StatusReasonNotFound,
      StatusReasonAlreadyExists, StatusReasonConflict, StatusReasonGone,
      StatusReasonInvalid, StatusReasonServerTimeout, StatusReasonTimeout,
      StatusReasonTooManyRequests, StatusReasonBadRequest, StatusReasonMethodNotAllowed,
      StatusReasonNotAcceptable, StatusReasonRequestEntityTooLarge,
      StatusReasonUnsupportedMediaType, StatusReasonInternalError, StatusReasonExpired,
      StatusReasonServiceUnavailable]"

datatype error =
    StatusError StatusReason int string
  | PlainError string
  | KVError error string "(string \<times> string) list"

text \<open>\<open>kverrors.Wrap\<close>, at a non-nil \<open>err\<close> (every call site is under \<open>err != nil\<close>).\<close>

definition Wrap :: "error \<Rightarrow> string \<Rightarrow> (string \<times> string) list \<Rightarrow> error" where
  "Wrap err msg keysAndValues = KVError err msg keysAndValues"

text \<open>\<open>kverrors.Root\<close>: unwrap until there is no cause left.\<close>

fun Root :: "error \<Rightarrow> error" where
  "Root (KVError cause msg kv) = Root cause"
| "Root (StatusError reason code msg) = StatusError reason code msg"
| "Root (PlainError msg) = PlainError msg"

text \<open>
  \<open>apierrors.reasonAndCodeForError\<close>: the reason and the HTTP status code of the first
  API status in the chain of causes (\<open>errors.As\<close>), \<open>StatusReasonUnknown\<close> and 0
  when there is none. \<open>ReasonForError\<close> is the reason alone.
\<close>

fun reasonAndCodeForError :: "error \<Rightarrow> StatusReason \<times> int" where
  "reasonAndCodeForError (StatusError reason code msg) = (reason, code)"
| "reasonAndCodeForError (PlainError msg) = (StatusReasonUnknown, 0)"
| "reasonAndCodeForError (KVError cause msg kv) = reasonAndCodeForError cause"

fun ReasonForError :: "error \<Rightarrow> StatusReason" where
  "ReasonForError (StatusError reason code msg) = reason"
| "ReasonForError (PlainError msg) = StatusReasonUnknown"
| "ReasonForError (KVError cause msg kv) = ReasonForError cause"

text \<open>
  \<open>apierrors.IsNotFound\<close> and \<open>apierrors.IsConflict\<close>: the reason is the one asked
  for, or the reason is not a known one and the HTTP status code is 404
  (\<open>http.StatusNotFound\<close>), respectively 409 (\<open>http.StatusConflict\<close>).
  \<open>apierrors.IsAlreadyExists\<close> reads the reason only.
\<close>

definition IsNotFound :: "error \<Rightarrow> bool" where
  "IsNotFound err =
     (case reasonAndCodeForError err of
        (reason, code) \<Rightarrow>
          if reason = StatusReasonNotFound then True
          else if reason \<notin> set knownReasons \<and> code = 404 then True
          else False)"

definition IsAlreadyExists :: "error \<Rightarrow> bool" where
  "IsAlreadyExists err = (ReasonForError err = StatusReasonAlreadyExists)"

definition IsConflict :: "error \<Rightarrow> bool" where
  "IsConflict err =
     (case reasonAndCodeForError err of
        (reason, code) \<Rightarrow>
          if reason = StatusReasonConflict then True
          else if reason \<notin> set knownReasons \<and> code = 409 then True
          else False)"

section \<open>The store client\<close>

text \<open>
  \<open>client.Client\<close> is an interface to the remote store. Its four operations are
  functions on a store state \<open>'st\<close> of the client's own: get by key returns the object
  or an error, create, update and delete take the object and return an error or nil.
  Objects travel by value: a successful get replaces the contents of the object
  passed in, and what a call writes back into its argument otherwise is not modelled.
\<close>

record ('o, 'st) Client =
  client_Get :: "ObjectKey \<Rightarrow> 'st \<Rightarrow> (error + 'o) \<times> 'st"
  client_Create :: "'o \<Rightarrow> 'st \<Rightarrow> error option \<times> 'st"
  client_Update :: "'o \<Rightarrow> 'st \<Rightarrow> error option \<times> 'st"
  client_Delete :: "'o \<Rightarrow> 'st \<Rightarrow> error option \<times> 'st"

text \<open>Every call the code issues is recorded, with its outcome, after the store state.\<close>

datatype 'o call =
    GetCall ObjectKey "error + 'o"
  | CreateCall 'o "error option"
  | UpdateCall 'o "error option"
  | DeleteCall 'o "error option"

record ('o, 'st) world =
  store :: 'st
  calls :: "'o call list"

definition c_Get ::
  "('o, 'st) Client \<Rightarrow> ObjectKey \<Rightarrow> ('o, 'st) world \<Rightarrow> (error + 'o) \<times> ('o, 'st) world" where
  "c_Get c key w =
     (case client_Get c key (store w) of
        (r, st) \<Rightarrow> (r, \<lparr>store = st, calls = calls w @ [GetCall key r]\<rparr>))"

definition c_Create ::
  "('o, 'st) Client \<Rightarrow> 'o \<Rightarrow> ('o, 'st) world \<Rightarrow> error option \<times> ('o, 'st) world" where
  "c_Create c obj w =
     (case client_Create c obj (store w) of
        (r, st) \<Rightarrow> (r, \<lparr>store = st, calls = calls w @ [CreateCall obj r]\<rparr>))"

definition c_Update ::
  "('o, 'st) Client \<Rightarrow> 'o \<Rightarrow> ('o, 'st) world \<Rightarrow> error option \<times> ('o, 'st) world" where
  "c_Update c obj w =
     (case client_Update c obj (store w) of
        (r, st) \<Rightarrow> (r, \<lparr>store = st, calls = calls w @ [UpdateCall obj r]\<rparr>))"

definition c_Delete ::
  "('o, 'st) Client \<Rightarrow> 'o \<Rightarrow> ('o, 'st) world \<Rightarrow> error option \<times> ('o, 'st) world" where
  "c_Delete c obj w =
     (case client_Delete c obj (store w) of
        (r, st) \<Rightarrow> (r, \<lparr>store = st, calls = calls w @ [DeleteCall obj r]\<rparr>))"

fun is_Get :: "'o call \<Rightarrow> bool" where
  "is_Get (GetCall key r) = True"
| "is_Get (CreateCall obj r) = False"
| "is_Get (UpdateCall obj r) = False"
| "is_Get (DeleteCall obj r) = False"

fun is_Create :: "'o call \<Rightarrow> bool" where
  "is_Create (GetCall key r) = False"
| "is_Create (CreateCall obj r) = True"
| "is_Create (UpdateCall obj r) = False"
| "is_Create (DeleteCall obj r) = False"

fun is_Update :: "'o call \<Rightarrow> bool" where
  "is_Update (GetCall key r) = False"
| "is_Update (CreateCall obj r) = False"
| "is_Update (UpdateCall obj r) = True"
| "is_Update (DeleteCall obj r) = False"

text \<open>The error the store reported in a call, if any.\<close>

fun call_error :: "'o call \<Rightarrow> error option" where
  "call_error (GetCall key r) = (case r of Inl err \<Rightarrow> Some err | Inr obj \<Rightarrow> None)"
| "call_error (CreateCall obj r) = r"
| "call_error (UpdateCall obj r) = r"
| "call_error (DeleteCall obj r) = r"

section \<open>Package secret\<close>

text \<open>
  \<open>EqualityFunc\<close> compares the two secrets. \<open>MutateFunc\<close> receives two pointers and
  returns nothing; the model returns the contents of \<open>current\<close> and of \<open>desired\<close>
  after the call. In every call of this package the two pointers are distinct objects.
\<close>

type_synonym EqualityFunc = "Secret \<Rightarrow> Secret \<Rightarrow> bool"

type_synonym MutateFunc = "Secret \<Rightarrow> Secret \<Rightarrow> Secret \<times> Secret"

text \<open>
  \<open>Get\<close>. The constructor \<open>New\<close> of this package is declared outside the files at
  hand and is a parameter. The result is the pair \<open>(s, err)\<close>.
\<close>

definition Get ::
  "(string \<Rightarrow> string \<Rightarrow> (string \<rightharpoonup> string) \<Rightarrow> Secret) \<Rightarrow> (Secret, 'st) Client \<Rightarrow> ObjectKey
     \<Rightarrow> (Secret, 'st) world \<Rightarrow> (Secret \<times> error option) \<times> (Secret, 'st) world" where
  "Get New c key w =
     (let s = New (KeyName key) (KeyNamespace key) Map.empty
      in case c_Get c key w of
           (Inl err, w') \<Rightarrow>
             ((s, Some (Wrap err ''failed to get secret''
                          [(''name'', Name s), (''namespace'', Namespace s)])), w')
         | (Inr fetched, w') \<Rightarrow> ((fetched, None), w'))"

text \<open>
  \<open>GetDataSHA256\<close>. \<open>sha256.Sum256\<close> is a parameter; its result type is \<open>[32]byte\<close>.
  Go iterates over a map in an order of its own choosing: \<open>order1\<close> is the order in
  which the first \<open>range\<close> visits the keys of \<open>sec.Data\<close> and \<open>order2\<close> the order in
  which the second visits the keys of \<open>dataHashes\<close>; a key that is not in the map is
  not visited. \<open>dataHashes[key]\<close> is the zero array when the key is absent, and \<open>%s\<close>
  prints a byte array as its raw bytes.
\<close>

definition zero_digest :: string where
  "zero_digest = replicate 32 (CHR 0x00)"

definition GetDataSHA256 ::
  "(string \<Rightarrow> string \<Rightarrow> (string \<rightharpoonup> string) \<Rightarrow> Secret) \<Rightarrow> (string \<Rightarrow> string)
     \<Rightarrow> string list \<Rightarrow> string list \<Rightarrow> (Secret, 'st) Client \<Rightarrow> ObjectKey
     \<Rightarrow> (Secret, 'st) world \<Rightarrow> string \<times> (Secret, 'st) world" where
  "GetDataSHA256 New Sum256 order1 order2 c key w =
     (let hash = ''''
      in case Get New c key w of
           ((sec, Some err), w') \<Rightarrow> (hash, w')
         | ((sec, None), w') \<Rightarrow>
             (let dataHashes =
                    fold (\<lambda>key dataHashes.
                            case Data sec key of
                              Some data \<Rightarrow> dataHashes(key \<mapsto> Sum256 data)
                            | None \<Rightarrow> dataHashes)
                         order1 Map.empty;
                  sortedKeys =
                    fold (\<lambda>key sortedKeys.
                            case dataHashes key of
                              Some h \<Rightarrow> sortedKeys @ [key]
                            | None \<Rightarrow> sortedKeys)
                         order2 [];
                  sortedKeys = sort sortedKeys;
                  hash =
                    fold (\<lambda>key hash.
                            hash @ (case dataHashes key of Some h \<Rightarrow> h | None \<Rightarrow> zero_digest))
                         sortedKeys hash
              in (hash, w')))"

text \<open>An order in which a \<open>range\<close> over the map \<open>m\<close> may visit its keys: each key once.\<close>

definition range_order :: "('k \<rightharpoonup> 'v) \<Rightarrow> 'k list \<Rightarrow> bool" where
  "range_order m ks = (distinct ks \<and> set ks = dom m)"

text \<open>
  \<open>retry.RetryOnConflict(retry.DefaultRetry, fn)\<close> of client-go is
  \<open>retry.OnError(backoff, errors.IsConflict, fn)\<close>: \<open>fn\<close> runs until it returns nil or
  an error that is not retriable, at most \<open>backoff.Steps\<close> times; when the steps are
  used up the last retriable error is returned. \<open>DefaultRetry\<close> has 5 steps. The
  sleeps between attempts are left out. \<open>fn\<close> is a closure: \<open>'x\<close> is the state it
  reads and writes.
\<close>

fun OnError ::
  "nat \<Rightarrow> (error \<Rightarrow> bool) \<Rightarrow> ('x \<Rightarrow> error option \<times> 'x) \<Rightarrow> error option \<Rightarrow> 'x
     \<Rightarrow> error option \<times> 'x" where
  "OnError 0 retriable fn lastErr x = (lastErr, x)"
| "OnError (Suc steps) retriable fn lastErr x =
     (case fn x of
        (None, x') \<Rightarrow> (None, x')
      | (Some err, x') \<Rightarrow>
          if retriable err then OnError steps retriable fn (Some err) x'
          else (Some err, x'))"

definition DefaultRetry_Steps :: nat where
  "DefaultRetry_Steps = 5"

definition RetryOnConflict ::
  "nat \<Rightarrow> ('x \<Rightarrow> error option \<times> 'x) \<Rightarrow> 'x \<Rightarrow> error option \<times> 'x" where
  "RetryOnConflict steps fn x = OnError steps IsConflict fn None x"

text \<open>
  The closure passed to \<open>RetryOnConflict\<close> in \<open>CreateOrUpdate\<close>. It captures \<open>c\<close>,
  \<open>key\<close>, \<open>mutate\<close> and the pointers \<open>current\<close> and \<open>s\<close>; its state is the contents
  of \<open>s\<close> and the world (\<open>current\<close> is overwritten by the get before it is read).
\<close>

definition update_attempt ::
  "(Secret, 'st) Client \<Rightarrow> ObjectKey \<Rightarrow> MutateFunc \<Rightarrow> Secret \<times> (Secret, 'st) world
     \<Rightarrow> error option \<times> (Secret \<times> (Secret, 'st) world)" where
  "update_attempt c key mutate x =
     (case x of (s, w) \<Rightarrow>
        (case c_Get c key w of
           (Inl err, w') \<Rightarrow>
             (Some (Wrap err ''failed to get secret''
                      [(''name'', Name s), (''namespace'', Namespace s)]), (s, w'))
         | (Inr current, w') \<Rightarrow>
             (case mutate current s of
                (current', s') \<Rightarrow>
                  (case c_Update c current' w' of
                     (Some err, w'') \<Rightarrow> (Some err, (s', w''))
                   | (None, w'') \<Rightarrow> (None, (s', w''))))))"

text \<open>\<open>CreateOrUpdate\<close>: the returned error and the world after the call.\<close>

definition CreateOrUpdate ::
  "(Secret, 'st) Client \<Rightarrow> Secret \<Rightarrow> EqualityFunc \<Rightarrow> MutateFunc \<Rightarrow> (Secret, 'st) world
     \<Rightarrow> error option \<times> (Secret, 'st) world" where
  "CreateOrUpdate c s equal mutate w =
     (let key = \<lparr>KeyNamespace = Namespace s, KeyName = Name s\<rparr>
      in case c_Get c key w of
           (Inl err, w') \<Rightarrow>
             if IsNotFound err then
               (case c_Create c s w' of
                  (None, w'') \<Rightarrow> (None, w'')
                | (Some err, w'') \<Rightarrow>
                    (Some (Wrap err ''failed to create secret''
                             [(''name'', Name s), (''namespace'', Namespace s)]), w''))
             else
               (Some (Wrap err ''failed to get secret''
                        [(''name'', Name s), (''namespace'', Namespace s)]), w')
         | (Inr current, w') \<Rightarrow>
             if \<not> equal current s then
               (case RetryOnConflict DefaultRetry_Steps (update_attempt c key mutate) (s, w') of
                  (Some err, (s', w'')) \<Rightarrow>
                    (Some (Wrap err ''failed to update secret''
                             [(''name'', Name s'), (''namespace'', Namespace s')]), w'')
                | (None, (s', w'')) \<Rightarrow> (None, w''))
             else (None, w'))"

text \<open>\<open>Delete\<close>.\<close>

definition Delete ::
  "(string \<Rightarrow> string \<Rightarrow> (string \<rightharpoonup> string) \<Rightarrow> Secret) \<Rightarrow> (Secret, 'st) Client \<Rightarrow> ObjectKey
     \<Rightarrow> (Secret, 'st) world \<Rightarrow> error option \<times> (Secret, 'st) world" where
  "Delete New c key w =
     (let s = New (KeyName key) (KeyNamespace key) Map.empty
      in case c_Delete c s w of
           (Some err, w') \<Rightarrow>
             (Some (Wrap err ''failed to delete secret''
                      [(''name'', Name s), (''namespace'', Namespace s)]), w')
         | (None, w') \<Rightarrow> (None, w'))"

text \<open>
  The equality and mutation functions. \<open>equality.Semantic.DeepEqual\<close> on two maps is
  equality of their contents (a nil and an empty map are equal).
\<close>

definition AnnotationsAndDataEqual :: EqualityFunc where
  "AnnotationsAndDataEqual current desired =
     (Annotations current = Annotations desired \<and> Data current = Data desired)"

definition DataEqual :: EqualityFunc where
  "DataEqual current desired = (Data current = Data desired)"

definition MutateAnnotationsAndDataOnly :: MutateFunc where
  "MutateAnnotationsAndDataOnly current desired =
     (let current = current\<lparr>Annotations := Annotations desired\<rparr>;
          current = current\<lparr>Data := Data desired\<rparr>
      in (current, desired))"

definition MutateDataOnly :: MutateFunc where
  "MutateDataOnly current desired =
     (let current = current\<lparr>Data := Data desired\<rparr>
      in (current, desired))"

section \<open>Network policy\<close>

text \<open>\<open>newNetworkPolicy\<close>: the policy \<open>restricted-es-policy\<close> of the namespace.\<close>

definition newNetworkPolicy :: "string \<Rightarrow> NetworkPolicy" where
  "newNetworkPolicy namespace =
     (let protocol = ''TCP''; port = 9200; internalPort = 9300
      in \<lparr>Kind = ''NetworkPolicy'',
          APIVersion = ''networking.k8s.io/v1'',
          Name = ''restricted-es-policy'',
          Namespace = namespace,
          ResourceVersion = '''',
          Labels = Map.empty,
          Annotations = Map.empty,
          OwnerReferences = [],
          Spec = NetworkPolicySpec
            (LabelSelector [(''component'', ''elasticsearch'')])
            [NetworkPolicyIngressRule
               [NetworkPolicyPeer
                  (Some (LabelSelector [(''name'', ''elasticsearch-operator'')]))
                  (Some (LabelSelector []))]
               [NetworkPolicyPort (Some protocol) (Some port)],
             NetworkPolicyIngressRule
               [NetworkPolicyPeer
                  (Some (LabelSelector [(''component'', ''elasticsearch'')])) None]
               [NetworkPolicyPort (Some protocol) (Some port)],
             NetworkPolicyIngressRule
               [NetworkPolicyPeer
                  (Some (LabelSelector [(''component'', ''elasticsearch'')])) None]
               [NetworkPolicyPort (Some protocol) (Some internalPort)]]\<rparr>)"

definition EnforceNetworkPolicy ::
  "string \<Rightarrow> (NetworkPolicy, 'st) Client \<Rightarrow> OwnerReference list \<Rightarrow> (NetworkPolicy, 'st) world
     \<Rightarrow> error option \<times> (NetworkPolicy, 'st) world" where
  "EnforceNetworkPolicy namespace client ownerRef w =
     (let policy = newNetworkPolicy namespace;
          policy = policy\<lparr>OwnerReferences := ownerRef\<rparr>
      in case c_Create client policy w of
           (Some err, w') \<Rightarrow>
             if \<not> IsAlreadyExists (Root err) then
               (Some (Wrap err ''failed to create network policy'' []), w')
             else (None, w')
         | (None, w') \<Rightarrow> (None, w'))"

definition RelaxNetworkPolicy ::
  "string \<Rightarrow> (NetworkPolicy, 'st) Client \<Rightarrow> (NetworkPolicy, 'st) world
     \<Rightarrow> error option \<times> (NetworkPolicy, 'st) world" where
  "RelaxNetworkPolicy namespace client w =
     (let policy = newNetworkPolicy namespace
      in case c_Delete client policy w of
           (Some err, w') \<Rightarrow>
             if \<not> IsNotFound (Root err) then
               (Some (Wrap err ''failed to delete network policy'' []), w')
             else (None, w')
         | (None, w') \<Rightarrow> (None, w'))"


text \<open>
  A call after which the update loop of \<open>CreateOrUpdate\<close> may go on: a get that
  succeeded, or a call in which the store reported a conflict.
\<close>

definition may_continue :: "'o call \<Rightarrow> bool" where
  "may_continue ev = (case call_error ev of None \<Rightarrow> is_Get ev | Some e \<Rightarrow> IsConflict e)"

text \<open>
  The retry of \<open>CreateOrUpdate\<close> (re-fetch, re-merge, re-submit), as a reading of the
  calls that follow the first get: each attempt re-fetches by \<open>key\<close>; after a fetch that fails
  nothing is submitted in that attempt; after a fetch that returns \<open>current\<close> the
  next call is an update that submits \<open>current\<close> merged with the desired secret,
  \<open>fst (mutate current s)\<close>. The desired secret of the next attempt is what the merge
  left of it.
\<close>

fun refetch_merge_submit :: "MutateFunc \<Rightarrow> ObjectKey \<Rightarrow> Secret \<Rightarrow> Secret call list \<Rightarrow> bool" where
  "refetch_merge_submit mutate key s [] = True"
| "refetch_merge_submit mutate key s (GetCall k (Inl e) # evs) =
     (k = key \<and> refetch_merge_submit mutate key s evs)"
| "refetch_merge_submit mutate key s (GetCall k (Inr current) # UpdateCall obj r # evs) =
     (k = key \<and> obj = fst (mutate current s)
      \<and> refetch_merge_submit mutate key (snd (mutate current s)) evs)"
| "refetch_merge_submit mutate key s evs = False"

text \<open>
  The recorded calls are what the store answered: \<open>replay c st evs\<close> issues the calls
  of \<open>evs\<close> to the client, one after the other from the store state \<open>st\<close>, and is
  the last store state if each recorded outcome is the answer of the client, \<open>None\<close>
  otherwise.
\<close>

fun replay :: "('o, 'st) Client \<Rightarrow> 'st \<Rightarrow> 'o call list \<Rightarrow> 'st option" where
  "replay c st [] = Some st"
| "replay c st (GetCall key r # evs) =
     (if fst (client_Get c key st) = r then replay c (snd (client_Get c key st)) evs
      else None)"
| "replay c st (CreateCall obj r # evs) =
     (if fst (client_Create c obj st) = r then replay c (snd (client_Create c obj st)) evs
      else None)"
| "replay c st (UpdateCall obj r # evs) =
     (if fst (client_Update c obj st) = r then replay c (snd (client_Update c obj st)) evs
      else None)"
| "replay c st (DeleteCall obj r # evs) =
     (if fst (client_Delete c obj st) = r then replay c (snd (client_Delete c obj st)) evs
      else None)"

section \<open>Stores to run the code on\<close>

text \<open>
  An in-memory store with the contract of the remote one: get and delete report
  not found for a missing key, create reports already exists for a present one, update
  reports a conflict when the revision token of the object is not the stored one and
  otherwise stores the object under a new token.
\<close>

definition memory_client :: "('a KubeObject_scheme, ObjectKey \<rightharpoonup> 'a KubeObject_scheme) Client" where
  "memory_client =
     \<lparr>client_Get = (\<lambda>key st.
        case st key of
          None \<Rightarrow> (Inl (StatusError StatusReasonNotFound 404 ''not found''), st)
        | Some obj \<Rightarrow> (Inr obj, st)),
      client_Create = (\<lambda>obj st.
        case st \<lparr>KeyNamespace = Namespace obj, KeyName = Name obj\<rparr> of
          None \<Rightarrow> (None, st(\<lparr>KeyNamespace = Namespace obj, KeyName = Name obj\<rparr> \<mapsto> obj))
        | Some cur \<Rightarrow> (Some (StatusError StatusReasonAlreadyExists 409 ''already exists''), st)),
      client_Update = (\<lambda>obj st.
        case st \<lparr>KeyNamespace = Namespace obj, KeyName = Name obj\<rparr> of
          None \<Rightarrow> (Some (StatusError StatusReasonNotFound 404 ''not found''), st)
        | Some cur \<Rightarrow>
            if ResourceVersion obj \<noteq> ResourceVersion cur
            then (Some (StatusError StatusReasonConflict 409 ''object has been modified''), st)
            else (None, st(\<lparr>KeyNamespace = Namespace obj, KeyName = Name obj\<rparr> \<mapsto>
                             obj\<lparr>ResourceVersion := CHR ''1'' # ResourceVersion cur\<rparr>))),
      client_Delete = (\<lambda>obj st.
        case st \<lparr>KeyNamespace = Namespace obj, KeyName = Name obj\<rparr> of
          None \<Rightarrow> (Some (StatusError StatusReasonNotFound 404 ''not found''), st)
        | Some cur \<Rightarrow> (None, st(\<lparr>KeyNamespace = Namespace obj, KeyName = Name obj\<rparr> := None)))\<rparr>"

text \<open>
  A store that holds one object while other writers are at work: its state is the
  number of updates that will still lose against them and be refused with a conflict.
  A get for the name \<open>hidden\<close> reports not found, and a create of an object of that
  name is refused as already existing (another writer created it in between). A get
  for the name \<open>denied\<close> is forbidden. A delete in the namespace \<open>proxied\<close> is
  answered with a bare HTTP 404 that carries no reason.
\<close>

definition contended_client :: "'a KubeObject_scheme \<Rightarrow> ('a KubeObject_scheme, nat) Client" where
  "contended_client held =
     \<lparr>client_Get = (\<lambda>key n.
        if KeyName key = ''hidden''
        then (Inl (StatusError StatusReasonNotFound 404 ''not found''), n)
        else if KeyName key = ''denied''
        then (Inl (StatusError StatusReasonForbidden 403 ''forbidden''), n)
        else (Inr held, n)),
      client_Create = (\<lambda>obj n.
        if Name obj = ''hidden''
        then (Some (StatusError StatusReasonAlreadyExists 409 ''already exists''), n)
        else (None, n)),
      client_Update = (\<lambda>obj n.
        if 0 < n
        then (Some (StatusError StatusReasonConflict 409 ''object has been modified''), n - 1)
        else (None, n)),
      client_Delete = (\<lambda>obj n.
        if Namespace obj = ''proxied''
        then (Some (StatusError StatusReasonUnknown 404 ''404 page not found''), n)
        else (None, n))\<rparr>"

text \<open>A constructor to stand for \<open>New\<close>: name, namespace and data, the rest empty.\<close>

definition plain_New :: "string \<Rightarrow> string \<Rightarrow> (string \<rightharpoonup> string) \<Rightarrow> Secret" where
  "plain_New name namespace data =
     \<lparr>Kind = ''Secret'', APIVersion = ''v1'', Name = name, Namespace = namespace,
      ResourceVersion = '''', Labels = Map.empty, Annotations = Map.empty,
      OwnerReferences = [], Immutable = None, Data = data, StringData = Map.empty,
      SecretType = ''''\<rparr>"


text \<open>
  A stand-in for \<open>sha256.Sum256\<close> to run \<open>GetDataSHA256\<close> with: the first 32 bytes
  of the data padded with zero bytes. It is no hash; it only has results of 32 bytes.
\<close>

definition padded32 :: "string \<Rightarrow> string" where
  "padded32 data = take 32 (data @ replicate 32 (CHR 0x00))"



section \<open>Properties of newResourceRequirements\<close>

lemmas resolver_eval = newResourceRequirements_def resolveMem_def resolveCPU_def Cpu_def
  Memory_def Name_of_def IsZero_def index_or_zero_def ResourceCPU_def ResourceMemory_def
  zeroQuantity_def

lemma resolveMem_assigned:
  "\<exists>rm lm. resolveMem n c d = (Some rm, Some lm)"
  by (simp add: resolveMem_def Let_def)

lemma resolveCPU_request_assigned:
  "\<exists>rc lc. resolveCPU n c d = (Some rc, lc)"
  by (simp add: resolveCPU_def Let_def)

lemma newResourceRequirements_packaging:
  assumes "resolveMem n c d = (Some rm, Some lm)"
      and "resolveCPU n c d = (Some rc, lc)"
  shows "newResourceRequirements n c d =
           Inr \<lparr>Limits = (case lc of None \<Rightarrow> [''memory'' \<mapsto> lm]
                                     | Some l \<Rightarrow> [''cpu'' \<mapsto> l, ''memory'' \<mapsto> lm]),
                Requests = [''cpu'' \<mapsto> rc, ''memory'' \<mapsto> rm]\<rparr>"
  using assms by (simp add: newResourceRequirements_def split: option.splits)

lemma newResourceRequirements_fields:
  "\<exists>r. newResourceRequirements n c d = Inr r
       \<and> Requests r ''memory'' = fst (resolveMem n c d)
       \<and> Limits r ''memory'' = snd (resolveMem n c d)
       \<and> Requests r ''cpu'' = fst (resolveCPU n c d)
       \<and> Limits r ''cpu'' = snd (resolveCPU n c d)"
proof -
  obtain rm lm where m: "resolveMem n c d = (Some rm, Some lm)"
    using resolveMem_assigned by blast
  obtain rc lc where p: "resolveCPU n c d = (Some rc, lc)"
    using resolveCPU_request_assigned by blast
  show ?thesis
    unfolding newResourceRequirements_packaging [OF m p] m p
    by (cases lc) simp_all
qed

text \<open>
  C10. For every workload, cluster and default requirements (empty ones and defaults
  without entries included) \<open>newResourceRequirements\<close> returns normally, never through
  a nil dereference: \<open>requestMem\<close>, \<open>limitMem\<close> and \<open>requestCPU\<close> are assigned on
  every path, and \<open>limitCPU\<close> is dereferenced only where it is not nil. The result's
  requests hold a cpu and a memory entry and its limits hold a memory entry.
\<close>

theorem newResourceRequirements_total:
  "\<exists>r. newResourceRequirements n c d = Inr r
       \<and> Requests r ''cpu'' \<noteq> None \<and> Requests r ''memory'' \<noteq> None
       \<and> Limits r ''memory'' \<noteq> None"
proof -
  obtain rm lm where m: "resolveMem n c d = (Some rm, Some lm)"
    using resolveMem_assigned by blast
  obtain rc lc where p: "resolveCPU n c d = (Some rc, lc)"
    using resolveCPU_request_assigned by blast
  show ?thesis
    unfolding newResourceRequirements_packaging [OF m p]
    by (cases lc) simp_all
qed

theorem newResourceRequirements_total_witness:
  "\<exists>r. newResourceRequirements \<lparr>Limits = Map.empty, Requests = Map.empty\<rparr>
          \<lparr>Limits = Map.empty, Requests = Map.empty\<rparr>
          \<lparr>Limits = Map.empty, Requests = Map.empty\<rparr> = Inr r
       \<and> Requests r ''cpu'' \<noteq> None \<and> Requests r ''memory'' \<noteq> None
       \<and> Limits r ''memory'' \<noteq> None"
  using newResourceRequirements_total [of "\<lparr>Limits = Map.empty, Requests = Map.empty\<rparr>"
          "\<lparr>Limits = Map.empty, Requests = Map.empty\<rparr>"
          "\<lparr>Limits = Map.empty, Requests = Map.empty\<rparr>"]
  by simp

text \<open>
  C1, as stated, fails. With only a cluster CPU request of 1 set (no workload values, no
  cluster CPU limit) the claim promises a CPU limit of 1; the code leaves \<open>limitCPU\<close>
  nil and returns limits without a cpu entry.
\<close>

theorem cpu_limit_cluster_request_only_counterexample:
  "\<not> (IsZero (Cpu (Requests \<lparr>Limits = Map.empty,
          Requests = [''cpu'' \<mapsto> \<lparr>qvalue = 1, qscale = 0, Format = ''DecimalSI''\<rparr>]\<rparr>))
       \<and> IsZero (Cpu (Limits \<lparr>Limits = Map.empty,
          Requests = [''cpu'' \<mapsto> \<lparr>qvalue = 1, qscale = 0, Format = ''DecimalSI''\<rparr>]\<rparr>)))
   \<and> (case newResourceRequirements
            \<lparr>Limits = Map.empty, Requests = Map.empty\<rparr>
            \<lparr>Limits = Map.empty,
             Requests = [''cpu'' \<mapsto> \<lparr>qvalue = 1, qscale = 0, Format = ''DecimalSI''\<rparr>]\<rparr>
            \<lparr>Limits = Map.empty, Requests = Map.empty\<rparr> of
         Inl p \<Rightarrow> False
       | Inr r \<Rightarrow> Limits r ''cpu'' = None
                 \<and> Requests r ''cpu'' = Some \<lparr>qvalue = 1, qscale = 0, Format = ''DecimalSI''\<rparr>)"
  by (simp add: resolver_eval)

text \<open>
  C1, amended. Where the cluster sets a CPU request or a CPU limit, the CPU limit of the
  result is the workload CPU limit if set, otherwise the cluster CPU limit if set; when
  neither limit is set the result has no CPU limit entry (the cluster CPU request is not
  used as a limit).
\<close>

theorem cpu_limit_with_cluster_settings:
  assumes "\<not> (IsZero (Cpu (Requests c)) \<and> IsZero (Cpu (Limits c)))"
  shows "\<exists>r. newResourceRequirements n c d = Inr r
           \<and> Limits r ''cpu'' =
               (if \<not> IsZero (Cpu (Limits n)) then Some (Cpu (Limits n))
                else if \<not> IsZero (Cpu (Limits c)) then Some (Cpu (Limits c))
                else None)"
proof -
  have "snd (resolveCPU n c d) =
          (if \<not> IsZero (Cpu (Limits n)) then Some (Cpu (Limits n))
           else if \<not> IsZero (Cpu (Limits c)) then Some (Cpu (Limits c))
           else None)"
    using assms by (simp add: resolveCPU_def Let_def)
  then show ?thesis
    using newResourceRequirements_fields [of n c d] by auto
qed

theorem cpu_limit_with_cluster_settings_witness:
  "\<not> (IsZero (Cpu (Requests \<lparr>Limits = [''cpu'' \<mapsto> \<lparr>qvalue = 2, qscale = 0, Format = ''DecimalSI''\<rparr>],
                              Requests = Map.empty\<rparr>))
       \<and> IsZero (Cpu (Limits \<lparr>Limits = [''cpu'' \<mapsto> \<lparr>qvalue = 2, qscale = 0, Format = ''DecimalSI''\<rparr>],
                               Requests = Map.empty\<rparr>)))
   \<and> (\<exists>r. newResourceRequirements \<lparr>Limits = Map.empty, Requests = Map.empty\<rparr>
             \<lparr>Limits = [''cpu'' \<mapsto> \<lparr>qvalue = 2, qscale = 0, Format = ''DecimalSI''\<rparr>],
              Requests = Map.empty\<rparr>
             \<lparr>Limits = Map.empty, Requests = Map.empty\<rparr> = Inr r
          \<and> Limits r ''cpu'' = Some \<lparr>qvalue = 2, qscale = 0, Format = ''DecimalSI''\<rparr>)"
proof -
  have h: "\<not> (IsZero (Cpu (Requests \<lparr>Limits = [''cpu'' \<mapsto> \<lparr>qvalue = 2, qscale = 0, Format = ''DecimalSI''\<rparr>],
                              Requests = Map.empty\<rparr>))
       \<and> IsZero (Cpu (Limits \<lparr>Limits = [''cpu'' \<mapsto> \<lparr>qvalue = 2, qscale = 0, Format = ''DecimalSI''\<rparr>],
                               Requests = Map.empty\<rparr>)))"
    by (simp add: resolver_eval)
  from cpu_limit_with_cluster_settings [OF h, of "\<lparr>Limits = Map.empty, Requests = Map.empty\<rparr>"
         "\<lparr>Limits = Map.empty, Requests = Map.empty\<rparr>"] h
  show ?thesis by (simp add: resolver_eval)
qed

text \<open>
  C6. Where the cluster sets neither a memory request nor a memory limit and the
  workload sets exactly one of the two, both the memory request and the memory limit of
  the result are that one workload value.
\<close>

theorem memory_single_workload_value:
  assumes "IsZero (Memory (Requests c))" and "IsZero (Memory (Limits c))"
      and "IsZero (Memory (Requests n)) \<noteq> IsZero (Memory (Limits n))"
  shows "\<exists>r. newResourceRequirements n c d = Inr r
           \<and> Requests r ''memory'' =
               Some (if IsZero (Memory (Requests n)) then Memory (Limits n)
                     else Memory (Requests n))
           \<and> Limits r ''memory'' =
               Some (if IsZero (Memory (Requests n)) then Memory (Limits n)
                     else Memory (Requests n))"
proof -
  have "resolveMem n c d =
          (Some (if IsZero (Memory (Requests n)) then Memory (Limits n)
                 else Memory (Requests n)),
           Some (if IsZero (Memory (Requests n)) then Memory (Limits n)
                 else Memory (Requests n)))"
    using assms by (auto simp add: resolveMem_def Let_def)
  then show ?thesis
    using newResourceRequirements_fields [of n c d] by auto
qed

theorem memory_single_workload_value_witness:
  "IsZero (Memory (Requests \<lparr>Limits = Map.empty, Requests = Map.empty\<rparr>))
   \<and> IsZero (Memory (Limits \<lparr>Limits = Map.empty, Requests = Map.empty\<rparr>))
   \<and> IsZero (Memory (Requests \<lparr>Limits = [''memory'' \<mapsto> \<lparr>qvalue = 4, qscale = 0, Format = ''BinarySI''\<rparr>],
                               Requests = Map.empty\<rparr>))
       \<noteq> IsZero (Memory (Limits \<lparr>Limits = [''memory'' \<mapsto> \<lparr>qvalue = 4, qscale = 0, Format = ''BinarySI''\<rparr>],
                                 Requests = Map.empty\<rparr>))
   \<and> (\<exists>r. newResourceRequirements
             \<lparr>Limits = [''memory'' \<mapsto> \<lparr>qvalue = 4, qscale = 0, Format = ''BinarySI''\<rparr>],
              Requests = Map.empty\<rparr>
             \<lparr>Limits = Map.empty, Requests = Map.empty\<rparr>
             \<lparr>Limits = Map.empty,
              Requests = [''memory'' \<mapsto> \<lparr>qvalue = 1, qscale = 0, Format = ''BinarySI''\<rparr>]\<rparr> = Inr r
          \<and> Requests r ''memory'' = Some \<lparr>qvalue = 4, qscale = 0, Format = ''BinarySI''\<rparr>
          \<and> Limits r ''memory'' = Some \<lparr>qvalue = 4, qscale = 0, Format = ''BinarySI''\<rparr>)"
proof -
  have h1: "IsZero (Memory (Requests \<lparr>Limits = Map.empty, Requests = Map.empty\<rparr>))"
    by (simp add: resolver_eval)
  have h2: "IsZero (Memory (Limits \<lparr>Limits = Map.empty, Requests = Map.empty\<rparr>))"
    by (simp add: resolver_eval)
  have h3: "IsZero (Memory (Requests \<lparr>Limits = [''memory'' \<mapsto> \<lparr>qvalue = 4, qscale = 0, Format = ''BinarySI''\<rparr>],
                               Requests = Map.empty\<rparr>))
       \<noteq> IsZero (Memory (Limits \<lparr>Limits = [''memory'' \<mapsto> \<lparr>qvalue = 4, qscale = 0, Format = ''BinarySI''\<rparr>],
                                 Requests = Map.empty\<rparr>))"
    by (simp add: resolver_eval)
  from memory_single_workload_value [OF h1 h2 h3,
         of "\<lparr>Limits = Map.empty,
              Requests = [''memory'' \<mapsto> \<lparr>qvalue = 1, qscale = 0, Format = ''BinarySI''\<rparr>]\<rparr>"] h1 h2 h3
  show ?thesis by (simp add: resolver_eval)
qed

text \<open>
  C7. Where neither the workload nor the cluster sets a CPU request or a CPU limit, the
  resolved CPU request is the default CPU request (the \<open>Requests["cpu"]\<close> entry of
  the default requirements, whatever else they hold) and no CPU limit is resolved; and
  whenever no CPU limit is resolved, the limits of the result have no cpu entry. The
  limits always have a memory entry.
\<close>

theorem cpu_default_request_no_limit:
  "\<exists>r. newResourceRequirements n c d = Inr r
     \<and> (IsZero (Cpu (Requests n)) \<and> IsZero (Cpu (Limits n))
          \<and> IsZero (Cpu (Requests c)) \<and> IsZero (Cpu (Limits c))
        \<longrightarrow> resolveCPU n c d = (Some (index_or_zero (Requests d) ResourceCPU), None)
            \<and> Requests r ''cpu'' = Some (index_or_zero (Requests d) ResourceCPU))
     \<and> (snd (resolveCPU n c d) = None \<longrightarrow> Limits r ''cpu'' = None)
     \<and> Limits r ''memory'' \<noteq> None"
proof -
  have a: "IsZero (Cpu (Requests n)) \<and> IsZero (Cpu (Limits n))
          \<and> IsZero (Cpu (Requests c)) \<and> IsZero (Cpu (Limits c))
        \<longrightarrow> resolveCPU n c d = (Some (index_or_zero (Requests d) ResourceCPU), None)"
    by (simp add: resolveCPU_def Let_def)
  obtain rm lm where m: "resolveMem n c d = (Some rm, Some lm)"
    using resolveMem_assigned by blast
  from newResourceRequirements_fields [of n c d] a m show ?thesis
    by auto
qed

theorem cpu_default_request_no_limit_witness:
  "IsZero (Cpu (Requests \<lparr>Limits = Map.empty, Requests = Map.empty\<rparr>))
   \<and> IsZero (Cpu (Limits \<lparr>Limits = Map.empty, Requests = Map.empty\<rparr>))
   \<and> snd (resolveCPU \<lparr>Limits = Map.empty, Requests = Map.empty\<rparr>
             \<lparr>Limits = Map.empty, Requests = Map.empty\<rparr>
             \<lparr>Limits = [''cpu'' \<mapsto> \<lparr>qvalue = 9, qscale = 0, Format = ''DecimalSI''\<rparr>],
              Requests = [''cpu'' \<mapsto> \<lparr>qvalue = 5, qscale = -1, Format = ''DecimalSI''\<rparr>]\<rparr>) = None
   \<and> (\<exists>r. newResourceRequirements \<lparr>Limits = Map.empty, Requests = Map.empty\<rparr>
          \<lparr>Limits = Map.empty, Requests = Map.empty\<rparr>
          \<lparr>Limits = [''cpu'' \<mapsto> \<lparr>qvalue = 9, qscale = 0, Format = ''DecimalSI''\<rparr>],
           Requests = [''cpu'' \<mapsto> \<lparr>qvalue = 5, qscale = -1, Format = ''DecimalSI''\<rparr>]\<rparr> = Inr r
     \<and> Requests r ''cpu'' = Some \<lparr>qvalue = 5, qscale = -1, Format = ''DecimalSI''\<rparr>
     \<and> Limits r ''cpu'' = None
     \<and> Limits r ''memory'' \<noteq> None)"
proof -
  let ?e = "\<lparr>Limits = Map.empty, Requests = Map.empty\<rparr> :: ResourceRequirements"
  let ?d = "\<lparr>Limits = [''cpu'' \<mapsto> \<lparr>qvalue = 9, qscale = 0, Format = ''DecimalSI''\<rparr>],
             Requests = [''cpu'' \<mapsto> \<lparr>qvalue = 5, qscale = -1, Format = ''DecimalSI''\<rparr>]\<rparr>
            :: ResourceRequirements"
  have z: "IsZero (Cpu (Requests ?e))" "IsZero (Cpu (Limits ?e))"
    by (simp_all add: resolver_eval)
  have dflt: "index_or_zero (Requests ?d) ResourceCPU
                = \<lparr>qvalue = 5, qscale = -1, Format = ''DecimalSI''\<rparr>"
    by (simp add: index_or_zero_def ResourceCPU_def)
  from cpu_default_request_no_limit [of ?e ?e ?d] z
  obtain r where r: "newResourceRequirements ?e ?e ?d = Inr r"
      "resolveCPU ?e ?e ?d = (Some (index_or_zero (Requests ?d) ResourceCPU), None)"
      "Requests r ''cpu'' = Some (index_or_zero (Requests ?d) ResourceCPU)"
      "Limits r ''cpu'' = None" "Limits r ''memory'' \<noteq> None"
    by auto
  have none: "snd (resolveCPU ?e ?e ?d) = None"
    using r(2) by simp
  have ex: "\<exists>r. newResourceRequirements ?e ?e ?d = Inr r
              \<and> Requests r ''cpu'' = Some \<lparr>qvalue = 5, qscale = -1, Format = ''DecimalSI''\<rparr>
              \<and> Limits r ''cpu'' = None \<and> Limits r ''memory'' \<noteq> None"
    using r(1,3,4,5) unfolding dflt by (intro exI [of _ r]) simp
  from z none ex show ?thesis
    by (intro conjI) assumption+
qed

section \<open>Properties of the store protocol\<close>

lemma IsConflict_Wrap: "IsConflict (Wrap e msg kv) = IsConflict e"
  by (simp add: IsConflict_def Wrap_def)

text \<open>One run of the closure: either the get fails, or the get succeeds and one update follows.\<close>

lemma update_attempt_cases:
  assumes "update_attempt c key mutate (s, w) = (r, (s', w'))"
  shows "(\<exists>e st. client_Get c key (store w) = (Inl e, st)
            \<and> r = Some (Wrap e ''failed to get secret''
                          [(''name'', Name s), (''namespace'', Namespace s)])
            \<and> s' = s
            \<and> w' = \<lparr>store = st, calls = calls w @ [GetCall key (Inl e)]\<rparr>)
       \<or> (\<exists>cur st st'. client_Get c key (store w) = (Inr cur, st)
            \<and> client_Update c (fst (mutate cur s)) st = (r, st')
            \<and> s' = snd (mutate cur s)
            \<and> w' = \<lparr>store = st',
                     calls = calls w @ [GetCall key (Inr cur), UpdateCall (fst (mutate cur s)) r]\<rparr>)"
  using assms
  by (auto simp add: update_attempt_def c_Get_def c_Update_def
           split: prod.splits sum.splits option.splits)

lemma update_attempt_events:
  assumes keep: "\<forall>cur des. Name (snd (mutate cur des)) = Name des
                      \<and> Namespace (snd (mutate cur des)) = Namespace des"
      and run: "update_attempt c key mutate (s, w) = (r, (s', w'))"
  shows "\<exists>evs. calls w' = calls w @ evs \<and> evs \<noteq> []
           \<and> (\<forall>ev \<in> set evs. is_Get ev \<or> is_Update ev)
           \<and> length (filter is_Get evs) = 1
           \<and> length (filter is_Update evs) \<le> 1
           \<and> (\<forall>ev \<in> set (butlast evs). call_error ev = None \<and> is_Get ev)
           \<and> Name s' = Name s \<and> Namespace s' = Namespace s
           \<and> (case call_error (last evs) of
                 None \<Rightarrow> is_Update (last evs) \<and> r = None
               | Some e \<Rightarrow>
                   r = Some (if is_Update (last evs) then e
                             else Wrap e ''failed to get secret''
                                    [(''name'', Name s), (''namespace'', Namespace s)]))
           \<and> (\<forall>rest. refetch_merge_submit mutate key s (evs @ rest)
                         = refetch_merge_submit mutate key s' rest)
           \<and> (\<forall>rest. replay c (store w) (evs @ rest) = replay c (store w') rest)"
  using update_attempt_cases [OF run]
proof (elim disjE exE conjE)
  fix e st
  assume "client_Get c key (store w) = (Inl e, st)"
     and "r = Some (Wrap e ''failed to get secret''
                      [(''name'', Name s), (''namespace'', Namespace s)])"
     and "s' = s"
     and "w' = \<lparr>store = st, calls = calls w @ [GetCall key (Inl e)]\<rparr>"
  then show ?thesis
    by (intro exI [of _ "[GetCall key (Inl e)]"]) simp
next
  fix cur st st'
  assume "client_Get c key (store w) = (Inr cur, st)"
     and "client_Update c (fst (mutate cur s)) st = (r, st')"
     and "s' = snd (mutate cur s)"
     and "w' = \<lparr>store = st',
                calls = calls w @ [GetCall key (Inr cur), UpdateCall (fst (mutate cur s)) r]\<rparr>"
  with keep show ?thesis
    by (intro exI [of _ "[GetCall key (Inr cur), UpdateCall (fst (mutate cur s)) r]"])
       (simp split: option.splits)
qed

text \<open>
  The loop, by induction on the steps left: the calls it adds, how many, which of them
  were followed by another attempt, what each update submits, and what it returns after
  the last one.
\<close>

lemma OnError_update_attempt:
  assumes keep: "\<forall>cur des. Name (snd (mutate cur des)) = Name des
                      \<and> Namespace (snd (mutate cur des)) = Namespace des"
  shows "OnError n IsConflict (update_attempt c key mutate) lastErr (s, w) = (r, (s', w'))
     \<Longrightarrow> \<exists>evs. calls w' = calls w @ evs
           \<and> (\<forall>ev \<in> set evs. is_Get ev \<or> is_Update ev)
           \<and> length (filter is_Get evs) \<le> n
           \<and> length (filter is_Update evs) \<le> n
           \<and> (\<forall>ev \<in> set (butlast evs). may_continue ev)
           \<and> Name s' = Name s \<and> Namespace s' = Namespace s
           \<and> refetch_merge_submit mutate key s evs
           \<and> replay c (store w) evs = Some (store w')
           \<and> (if n = 0 then evs = [] \<and> r = lastErr
               else evs \<noteq> []
                 \<and> (case call_error (last evs) of
                       None \<Rightarrow> is_Update (last evs) \<and> r = None
                     | Some e \<Rightarrow>
                         r = Some (if is_Update (last evs) then e
                                   else Wrap e ''failed to get secret''
                                          [(''name'', Name s), (''namespace'', Namespace s)])
                         \<and> (IsConflict e \<longrightarrow> length (filter is_Get evs) = n)))"
proof (induction n arbitrary: lastErr s w)
  case 0
  then show ?case by simp
next
  case (Suc n)
  obtain r1 s1 w1 where att: "update_attempt c key mutate (s, w) = (r1, (s1, w1))"
    by (metis prod.exhaust)
  from update_attempt_events [OF keep att]
  obtain evs1 where e1: "calls w1 = calls w @ evs1" "evs1 \<noteq> []"
      "\<forall>ev \<in> set evs1. is_Get ev \<or> is_Update ev"
      "length (filter is_Get evs1) = 1" "length (filter is_Update evs1) \<le> 1"
      "\<forall>ev \<in> set (butlast evs1). call_error ev = None \<and> is_Get ev"
      "Name s1 = Name s" "Namespace s1 = Namespace s"
      and last1: "case call_error (last evs1) of
                 None \<Rightarrow> is_Update (last evs1) \<and> r1 = None
               | Some e \<Rightarrow>
                   r1 = Some (if is_Update (last evs1) then e
                             else Wrap e ''failed to get secret''
                                    [(''name'', Name s), (''namespace'', Namespace s)])"
      and rms1: "\<And>rest. refetch_merge_submit mutate key s (evs1 @ rest)
                         = refetch_merge_submit mutate key s1 rest"
      and rep1: "\<And>rest. replay c (store w) (evs1 @ rest) = replay c (store w1) rest"
    by blast
  have rms_only: "refetch_merge_submit mutate key s evs1"
    using rms1 [of "[]"] by simp
  have rep_only: "replay c (store w) evs1 = Some (store w1)"
    using rep1 [of "[]"] by simp
  have ok_butlast1: "\<forall>ev \<in> set (butlast evs1). may_continue ev"
    using e1(6) by (simp add: may_continue_def)
  show ?case
  proof (cases r1)
    case None
    with Suc.prems att have res: "r = None" "s' = s1" "w' = w1" by simp_all
    from None last1 have "call_error (last evs1) = None \<and> is_Update (last evs1)"
      by (auto split: option.splits)
    with e1 ok_butlast1 res rms_only rep_only show ?thesis
      by (intro exI [of _ evs1]) simp
  next
    case (Some err)
    from Some last1 obtain e where e: "call_error (last evs1) = Some e"
        "err = (if is_Update (last evs1) then e
                else Wrap e ''failed to get secret''
                       [(''name'', Name s), (''namespace'', Namespace s)])"
      by (auto split: option.splits)
    have confl: "IsConflict err = IsConflict e"
      using e(2) by (simp add: IsConflict_Wrap)
    show ?thesis
    proof (cases "IsConflict err")
      case False
      with Some Suc.prems att have res: "r = Some err" "s' = s1" "w' = w1" by simp_all
      from e1 ok_butlast1 res e False confl rms_only rep_only show ?thesis
        by (intro exI [of _ evs1]) simp
    next
      case True
      with Some Suc.prems att
      have rec: "OnError n IsConflict (update_attempt c key mutate) (Some err) (s1, w1)
                   = (r, (s', w'))"
        by simp
      from Suc.IH [OF rec]
      obtain evs2 where e2: "calls w' = calls w1 @ evs2"
          "\<forall>ev \<in> set evs2. is_Get ev \<or> is_Update ev"
          "length (filter is_Get evs2) \<le> n" "length (filter is_Update evs2) \<le> n"
          "\<forall>ev \<in> set (butlast evs2). may_continue ev"
          "Name s' = Name s1" "Namespace s' = Namespace s1"
          "refetch_merge_submit mutate key s1 evs2"
          "replay c (store w1) evs2 = Some (store w')"
          and last2: "if n = 0 then evs2 = [] \<and> r = Some err
               else evs2 \<noteq> []
                 \<and> (case call_error (last evs2) of
                       None \<Rightarrow> is_Update (last evs2) \<and> r = None
                     | Some e \<Rightarrow>
                         r = Some (if is_Update (last evs2) then e
                                   else Wrap e ''failed to get secret''
                                          [(''name'', Name s1), (''namespace'', Namespace s1)])
                         \<and> (IsConflict e \<longrightarrow> length (filter is_Get evs2) = n))"
        by blast
      have rms_both: "refetch_merge_submit mutate key s (evs1 @ evs2)"
        using rms1 [of evs2] e2(8) by simp
      have rep_both: "replay c (store w) (evs1 @ evs2) = Some (store w')"
        using rep1 [of evs2] e2(9) by simp
      have ok_last1: "may_continue (last evs1)"
        using e(1) True confl by (simp add: may_continue_def)
      have ok_all1: "\<forall>ev \<in> set evs1. may_continue ev"
      proof
        fix ev assume "ev \<in> set evs1"
        moreover have "set evs1 = set (butlast evs1) \<union> {last evs1}"
          using e1(2) by (cases evs1 rule: rev_cases) auto
        ultimately show "may_continue ev" using ok_butlast1 ok_last1 by auto
      qed
      show ?thesis
      proof (cases "n = 0")
        case True
        with last2 have z: "evs2 = []" "r = Some err" by simp_all
        from e1 e2 z ok_butlast1 e True \<open>IsConflict err\<close> confl rms_only show ?thesis
          by (intro exI [of _ evs1]) (simp add: rep_only)
      next
        case False
        with last2 have ne: "evs2 \<noteq> []" by simp
        have bl: "butlast (evs1 @ evs2) = evs1 @ butlast evs2"
          using ne by (simp add: butlast_append)
        have la: "last (evs1 @ evs2) = last evs2"
          using ne by simp
        from False last2 e1(7,8)
        have fin: "case call_error (last evs2) of
                       None \<Rightarrow> is_Update (last evs2) \<and> r = None
                     | Some e \<Rightarrow>
                         r = Some (if is_Update (last evs2) then e
                                   else Wrap e ''failed to get secret''
                                          [(''name'', Name s), (''namespace'', Namespace s)])
                         \<and> (IsConflict e \<longrightarrow> length (filter is_Get evs2) = n)"
          by (auto split: option.splits)
        have "calls w' = calls w @ (evs1 @ evs2)" using e1(1) e2(1) by simp
        moreover have "\<forall>ev \<in> set (evs1 @ evs2). is_Get ev \<or> is_Update ev"
          using e1(3) e2(2) by auto
        moreover have "length (filter is_Get (evs1 @ evs2)) \<le> Suc n"
          using e1(4) e2(3) by simp
        moreover have "length (filter is_Update (evs1 @ evs2)) \<le> Suc n"
          using e1(5) e2(4) by simp
        moreover have "\<forall>ev \<in> set (butlast (evs1 @ evs2)). may_continue ev"
          unfolding bl using ok_all1 e2(5) by auto
        moreover have "Name s' = Name s" "Namespace s' = Namespace s"
          using e1(7,8) e2(6,7) by simp_all
        moreover have "evs1 @ evs2 \<noteq> []" using ne by simp
        moreover have "case call_error (last (evs1 @ evs2)) of
                       None \<Rightarrow> is_Update (last (evs1 @ evs2)) \<and> r = None
                     | Some e \<Rightarrow>
                         r = Some (if is_Update (last (evs1 @ evs2)) then e
                                   else Wrap e ''failed to get secret''
                                          [(''name'', Name s), (''namespace'', Namespace s)])
                         \<and> (IsConflict e \<longrightarrow> length (filter is_Get (evs1 @ evs2)) = Suc n)"
          unfolding la using fin e1(4) by (auto split: option.splits)
        ultimately show ?thesis
          using rms_both rep_both by (intro exI [of _ "evs1 @ evs2"]) simp
      qed
    qed
  qed
qed

text \<open>
  C3. When the get of \<open>CreateOrUpdate\<close> returns a current secret and
  \<open>equal current s\<close> holds, the call returns nil and its only call to the store is
  that get: no create and no update is issued.
\<close>

theorem CreateOrUpdate_equal_no_write:
  assumes "client_Get c \<lparr>KeyNamespace = Namespace s, KeyName = Name s\<rparr> (store w)
             = (Inr current, st)"
      and "equal current s"
  shows "CreateOrUpdate c s equal mutate w =
           (None, \<lparr>store = st,
                   calls = calls w @
                     [GetCall \<lparr>KeyNamespace = Namespace s, KeyName = Name s\<rparr> (Inr current)]\<rparr>)
         \<and> filter is_Create (calls (snd (CreateOrUpdate c s equal mutate w)))
             = filter is_Create (calls w)
         \<and> filter is_Update (calls (snd (CreateOrUpdate c s equal mutate w)))
             = filter is_Update (calls w)"
  using assms by (simp add: CreateOrUpdate_def c_Get_def)

theorem CreateOrUpdate_equal_no_write_witness:
  "client_Get memory_client
     \<lparr>KeyNamespace = Namespace (plain_New ''tls'' ''logging'' [''key'' \<mapsto> ''value'']),
      KeyName = Name (plain_New ''tls'' ''logging'' [''key'' \<mapsto> ''value''])\<rparr>
     (store (\<lparr>store = [\<lparr>KeyNamespace = ''logging'', KeyName = ''tls''\<rparr> \<mapsto>
                        (plain_New ''tls'' ''logging'' [''key'' \<mapsto> ''value''])
                          \<lparr>ResourceVersion := ''41''\<rparr>],
             calls = []\<rparr> :: (Secret, ObjectKey \<rightharpoonup> Secret) world))
     = (Inr ((plain_New ''tls'' ''logging'' [''key'' \<mapsto> ''value''])\<lparr>ResourceVersion := ''41''\<rparr>),
        [\<lparr>KeyNamespace = ''logging'', KeyName = ''tls''\<rparr> \<mapsto>
           (plain_New ''tls'' ''logging'' [''key'' \<mapsto> ''value''])\<lparr>ResourceVersion := ''41''\<rparr>])
   \<and> DataEqual ((plain_New ''tls'' ''logging'' [''key'' \<mapsto> ''value''])\<lparr>ResourceVersion := ''41''\<rparr>)
        (plain_New ''tls'' ''logging'' [''key'' \<mapsto> ''value''])
   \<and> fst (CreateOrUpdate memory_client (plain_New ''tls'' ''logging'' [''key'' \<mapsto> ''value''])
             DataEqual MutateDataOnly
             \<lparr>store = [\<lparr>KeyNamespace = ''logging'', KeyName = ''tls''\<rparr> \<mapsto>
                         (plain_New ''tls'' ''logging'' [''key'' \<mapsto> ''value''])
                           \<lparr>ResourceVersion := ''41''\<rparr>],
              calls = []\<rparr>) = None
   \<and> filter is_Update (calls (snd
         (CreateOrUpdate memory_client (plain_New ''tls'' ''logging'' [''key'' \<mapsto> ''value''])
             DataEqual MutateDataOnly
             \<lparr>store = [\<lparr>KeyNamespace = ''logging'', KeyName = ''tls''\<rparr> \<mapsto>
                         (plain_New ''tls'' ''logging'' [''key'' \<mapsto> ''value''])
                           \<lparr>ResourceVersion := ''41''\<rparr>],
              calls = []\<rparr>))) = []
   \<and> filter is_Create (calls (snd
         (CreateOrUpdate memory_client (plain_New ''tls'' ''logging'' [''key'' \<mapsto> ''value''])
             DataEqual MutateDataOnly
             \<lparr>store = [\<lparr>KeyNamespace = ''logging'', KeyName = ''tls''\<rparr> \<mapsto>
                         (plain_New ''tls'' ''logging'' [''key'' \<mapsto> ''value''])
                           \<lparr>ResourceVersion := ''41''\<rparr>],
              calls = []\<rparr>))) = []"
proof -
  let ?s = "plain_New ''tls'' ''logging'' [''key'' \<mapsto> ''value'']"
  let ?held = "?s\<lparr>ResourceVersion := ''41''\<rparr>"
  let ?st = "[\<lparr>KeyNamespace = ''logging'', KeyName = ''tls''\<rparr> \<mapsto> ?held]"
  let ?w = "\<lparr>store = ?st, calls = []\<rparr> :: (Secret, ObjectKey \<rightharpoonup> Secret) world"
  have h1: "client_Get memory_client \<lparr>KeyNamespace = Namespace ?s, KeyName = Name ?s\<rparr> (store ?w)
              = (Inr ?held, ?st)"
    by (simp add: memory_client_def plain_New_def)
  have h2: "DataEqual ?held ?s"
    by (simp add: DataEqual_def plain_New_def)
  from CreateOrUpdate_equal_no_write [of memory_client ?s ?w ?held ?st DataEqual MutateDataOnly,
         OF h1 h2] h1 h2
  show ?thesis by simp
qed

text \<open>
  Run twice in a row on the in-memory store (whose objects are stored under their own
  key), with \<open>DataEqual\<close> and \<open>MutateDataOnly\<close>: the first run succeeds and leaves
  a secret with the data of \<open>s\<close>, so the second run issues its get and nothing else.
\<close>

lemma CreateOrUpdate_memory_client_first_run:
  fixes w :: "(Secret, ObjectKey \<rightharpoonup> Secret) world"
  assumes wf: "\<forall>k obj. store w k = Some obj
                 \<longrightarrow> k = \<lparr>KeyNamespace = Namespace obj, KeyName = Name obj\<rparr>"
  shows "\<exists>w1 held. CreateOrUpdate memory_client s DataEqual MutateDataOnly w = (None, w1)
           \<and> store w1 \<lparr>KeyNamespace = Namespace s, KeyName = Name s\<rparr> = Some held
           \<and> Data held = Data s"
proof (cases "store w \<lparr>KeyNamespace = Namespace s, KeyName = Name s\<rparr>")
  case None
  then show ?thesis
    by (simp add: CreateOrUpdate_def c_Get_def c_Create_def memory_client_def IsNotFound_def
          Let_def)
next
  case (Some cur)
  with wf have key: "Namespace cur = Namespace s" "Name cur = Name s"
    by (metis ObjectKey.ext_inject)+
  show ?thesis
  proof (cases "Data cur = Data s")
    case True
    with Some show ?thesis
      by (simp add: CreateOrUpdate_def c_Get_def memory_client_def DataEqual_def Let_def)
  next
    case False
    from False Some key show ?thesis
      by (simp add: CreateOrUpdate_def c_Get_def c_Update_def memory_client_def DataEqual_def
            RetryOnConflict_def DefaultRetry_Steps_def eval_nat_numeral update_attempt_def
            MutateDataOnly_def Let_def)
  qed
qed

lemma CreateOrUpdate_memory_client_rerun:
  fixes w :: "(Secret, ObjectKey \<rightharpoonup> Secret) world"
  assumes wf: "\<forall>k obj. store w k = Some obj
                 \<longrightarrow> k = \<lparr>KeyNamespace = Namespace obj, KeyName = Name obj\<rparr>"
  shows "\<exists>w1 held. CreateOrUpdate memory_client s DataEqual MutateDataOnly w = (None, w1)
           \<and> CreateOrUpdate memory_client s DataEqual MutateDataOnly w1
               = (None, \<lparr>store = store w1,
                         calls = calls w1 @
                           [GetCall \<lparr>KeyNamespace = Namespace s, KeyName = Name s\<rparr> (Inr held)]\<rparr>)"
proof -
  from CreateOrUpdate_memory_client_first_run [OF wf, of s]
  obtain w1 held where r: "CreateOrUpdate memory_client s DataEqual MutateDataOnly w = (None, w1)"
      "store w1 \<lparr>KeyNamespace = Namespace s, KeyName = Name s\<rparr> = Some held"
      "Data held = Data s"
    by blast
  have get: "client_Get memory_client \<lparr>KeyNamespace = Namespace s, KeyName = Name s\<rparr> (store w1)
               = (Inr held, store w1)"
    using r(2) by (simp add: memory_client_def)
  have eq: "DataEqual held s"
    using r(3) by (simp add: DataEqual_def)
  have "CreateOrUpdate memory_client s DataEqual MutateDataOnly w1
               = (None, \<lparr>store = store w1,
                         calls = calls w1 @
                           [GetCall \<lparr>KeyNamespace = Namespace s, KeyName = Name s\<rparr> (Inr held)]\<rparr>)"
    using get eq by (simp add: CreateOrUpdate_def c_Get_def Let_def)
  with r(1) show ?thesis by blast
qed

text \<open>
  C4. When the get of \<open>CreateOrUpdate\<close> returns a current secret that is not equal to
  \<open>s\<close> (and \<open>mutate\<close> leaves the name and namespace of \<open>s\<close> alone), the calls that
  follow are gets and updates only, with at most \<open>DefaultRetry_Steps\<close> (5) gets and as
  many updates. They are attempts that re-fetch by the key of \<open>s\<close>, merge what was
  fetched with the desired secret and submit the merged secret in an update, and they
  are recorded with the answers of the store, which is left in the state after the last
  of them. Every call but the last is a successful get or reported a conflict, so
  nothing but a conflict leads to another attempt. If the last call succeeded it is an
  update and the result is nil. If it failed with an error \<open>e\<close>, the result is \<open>e\<close>
  (for a failed get, \<open>e\<close> wrapped as a failed get) wrapped as a failed update with the
  name and namespace of \<open>s\<close>; and if \<open>e\<close> is a conflict, all 5 attempts were made.
\<close>

theorem CreateOrUpdate_update_loop:
  assumes keep: "\<forall>cur des. Name (snd (mutate cur des)) = Name des
                      \<and> Namespace (snd (mutate cur des)) = Namespace des"
      and get: "client_Get c \<lparr>KeyNamespace = Namespace s, KeyName = Name s\<rparr> (store w)
                  = (Inr current, st)"
      and neq: "\<not> equal current s"
  shows "\<exists>evs. calls (snd (CreateOrUpdate c s equal mutate w))
                 = calls w @ GetCall \<lparr>KeyNamespace = Namespace s, KeyName = Name s\<rparr> (Inr current) # evs
           \<and> evs \<noteq> []
           \<and> (\<forall>ev \<in> set evs. is_Get ev \<or> is_Update ev)
           \<and> length (filter is_Get evs) \<le> DefaultRetry_Steps
           \<and> length (filter is_Update evs) \<le> DefaultRetry_Steps
           \<and> refetch_merge_submit mutate \<lparr>KeyNamespace = Namespace s, KeyName = Name s\<rparr> s evs
           \<and> replay c st evs = Some (store (snd (CreateOrUpdate c s equal mutate w)))
           \<and> (\<forall>ev \<in> set (butlast evs). may_continue ev)
           \<and> (case call_error (last evs) of
                 None \<Rightarrow> is_Update (last evs) \<and> fst (CreateOrUpdate c s equal mutate w) = None
               | Some e \<Rightarrow>
                   fst (CreateOrUpdate c s equal mutate w)
                     = Some (Wrap (if is_Update (last evs) then e
                                   else Wrap e ''failed to get secret''
                                          [(''name'', Name s), (''namespace'', Namespace s)])
                               ''failed to update secret''
                               [(''name'', Name s), (''namespace'', Namespace s)])
                   \<and> (IsConflict e \<longrightarrow> length (filter is_Get evs) = DefaultRetry_Steps))"
proof -
  let ?key = "\<lparr>KeyNamespace = Namespace s, KeyName = Name s\<rparr>"
  let ?w1 = "\<lparr>store = st, calls = calls w @ [GetCall ?key (Inr current)]\<rparr>"
  obtain r s' w' where
    run: "OnError DefaultRetry_Steps IsConflict (update_attempt c ?key mutate) None (s, ?w1)
            = (r, (s', w'))"
    by (metis prod.exhaust)
  have res: "CreateOrUpdate c s equal mutate w
               = (case r of
                    Some err \<Rightarrow> Some (Wrap err ''failed to update secret''
                                        [(''name'', Name s'), (''namespace'', Namespace s')])
                  | None \<Rightarrow> None, w')"
    using get neq run
    by (simp add: CreateOrUpdate_def c_Get_def RetryOnConflict_def split: option.splits)
  have pos: "DefaultRetry_Steps \<noteq> 0" by (simp add: DefaultRetry_Steps_def)
  from OnError_update_attempt [OF keep run] pos
  obtain evs where ev: "calls w' = calls ?w1 @ evs"
      "\<forall>ev \<in> set evs. is_Get ev \<or> is_Update ev"
      "length (filter is_Get evs) \<le> DefaultRetry_Steps"
      "length (filter is_Update evs) \<le> DefaultRetry_Steps"
      "\<forall>ev \<in> set (butlast evs). may_continue ev"
      "Name s' = Name s" "Namespace s' = Namespace s"
      "evs \<noteq> []"
      "refetch_merge_submit mutate ?key s evs"
      "replay c (store ?w1) evs = Some (store w')"
      and fin: "case call_error (last evs) of
                       None \<Rightarrow> is_Update (last evs) \<and> r = None
                     | Some e \<Rightarrow>
                         r = Some (if is_Update (last evs) then e
                                   else Wrap e ''failed to get secret''
                                          [(''name'', Name s), (''namespace'', Namespace s)])
                         \<and> (IsConflict e \<longrightarrow> length (filter is_Get evs) = DefaultRetry_Steps)"
    by auto
  have "case call_error (last evs) of
                 None \<Rightarrow> is_Update (last evs) \<and> fst (CreateOrUpdate c s equal mutate w) = None
               | Some e \<Rightarrow>
                   fst (CreateOrUpdate c s equal mutate w)
                     = Some (Wrap (if is_Update (last evs) then e
                                   else Wrap e ''failed to get secret''
                                          [(''name'', Name s), (''namespace'', Namespace s)])
                               ''failed to update secret''
                               [(''name'', Name s), (''namespace'', Namespace s)])
                   \<and> (IsConflict e \<longrightarrow> length (filter is_Get evs) = DefaultRetry_Steps)"
    using fin ev(6,7) unfolding res by (auto split: option.splits)
  moreover have "calls (snd (CreateOrUpdate c s equal mutate w))
                 = calls w @ GetCall ?key (Inr current) # evs"
    unfolding res using ev(1) by simp
  moreover have "replay c st evs = Some (store (snd (CreateOrUpdate c s equal mutate w)))"
    unfolding res using ev(10) by simp
  ultimately show ?thesis
    using ev(2,3,4,5,8,9) by (intro exI [of _ evs]) simp
qed

theorem CreateOrUpdate_update_loop_witness:
  "(\<forall>cur des. Name (snd (MutateDataOnly cur des)) = Name des
             \<and> Namespace (snd (MutateDataOnly cur des)) = Namespace des)
   \<and> client_Get (contended_client (plain_New ''tls'' ''logging'' [''key'' \<mapsto> ''old'']))
        \<lparr>KeyNamespace = Namespace (plain_New ''tls'' ''logging'' [''key'' \<mapsto> ''new'']),
         KeyName = Name (plain_New ''tls'' ''logging'' [''key'' \<mapsto> ''new''])\<rparr>
        (store (\<lparr>store = 7, calls = []\<rparr> :: (Secret, nat) world))
        = (Inr (plain_New ''tls'' ''logging'' [''key'' \<mapsto> ''old'']), 7)
   \<and> \<not> DataEqual (plain_New ''tls'' ''logging'' [''key'' \<mapsto> ''old''])
          (plain_New ''tls'' ''logging'' [''key'' \<mapsto> ''new''])
   \<and> (\<exists>evs. calls (snd (CreateOrUpdate
                 (contended_client (plain_New ''tls'' ''logging'' [''key'' \<mapsto> ''old'']))
                 (plain_New ''tls'' ''logging'' [''key'' \<mapsto> ''new''])
                 DataEqual MutateDataOnly \<lparr>store = 7, calls = []\<rparr>))
               = GetCall \<lparr>KeyNamespace = ''logging'', KeyName = ''tls''\<rparr>
                   (Inr (plain_New ''tls'' ''logging'' [''key'' \<mapsto> ''old''])) # evs
           \<and> evs \<noteq> []
           \<and> length (filter is_Get evs) \<le> 5
           \<and> length (filter is_Update evs) \<le> 5
           \<and> refetch_merge_submit MutateDataOnly
                \<lparr>KeyNamespace = ''logging'', KeyName = ''tls''\<rparr>
                (plain_New ''tls'' ''logging'' [''key'' \<mapsto> ''new'']) evs
           \<and> replay (contended_client (plain_New ''tls'' ''logging'' [''key'' \<mapsto> ''old''])) 7 evs
               = Some (store (snd (CreateOrUpdate
                   (contended_client (plain_New ''tls'' ''logging'' [''key'' \<mapsto> ''old'']))
                   (plain_New ''tls'' ''logging'' [''key'' \<mapsto> ''new''])
                   DataEqual MutateDataOnly \<lparr>store = 7, calls = []\<rparr>)))
           \<and> (\<forall>ev \<in> set (butlast evs). may_continue ev))
   \<and> fst (CreateOrUpdate
             (contended_client (plain_New ''tls'' ''logging'' [''key'' \<mapsto> ''old'']))
             (plain_New ''tls'' ''logging'' [''key'' \<mapsto> ''new''])
             DataEqual MutateDataOnly \<lparr>store = 7, calls = []\<rparr>)
       = Some (KVError (StatusError StatusReasonConflict 409 ''object has been modified'')
                 ''failed to update secret'' [(''name'', ''tls''), (''namespace'', ''logging'')])
   \<and> CreateOrUpdate
         (contended_client (plain_New ''tls'' ''logging'' [''key'' \<mapsto> ''old'']))
         (plain_New ''tls'' ''logging'' [''key'' \<mapsto> ''new''])
         DataEqual MutateDataOnly \<lparr>store = 1, calls = []\<rparr>
       = (None,
          \<lparr>store = 0,
           calls =
             [GetCall \<lparr>KeyNamespace = ''logging'', KeyName = ''tls''\<rparr>
                (Inr (plain_New ''tls'' ''logging'' [''key'' \<mapsto> ''old''])),
              GetCall \<lparr>KeyNamespace = ''logging'', KeyName = ''tls''\<rparr>
                (Inr (plain_New ''tls'' ''logging'' [''key'' \<mapsto> ''old''])),
              UpdateCall (plain_New ''tls'' ''logging'' [''key'' \<mapsto> ''new''])
                (Some (StatusError StatusReasonConflict 409 ''object has been modified'')),
              GetCall \<lparr>KeyNamespace = ''logging'', KeyName = ''tls''\<rparr>
                (Inr (plain_New ''tls'' ''logging'' [''key'' \<mapsto> ''old''])),
              UpdateCall (plain_New ''tls'' ''logging'' [''key'' \<mapsto> ''new'']) None]\<rparr>)
   \<and> map_option Data
         (store (snd (CreateOrUpdate memory_client
                        (plain_New ''tls'' ''logging'' [''key'' \<mapsto> ''new''])
                        DataEqual MutateDataOnly
                        \<lparr>store = [\<lparr>KeyNamespace = ''logging'', KeyName = ''tls''\<rparr> \<mapsto>
                                    (plain_New ''tls'' ''logging'' [''key'' \<mapsto> ''old''])
                                      \<lparr>ResourceVersion := ''41''\<rparr>],
                         calls = []\<rparr>))
            \<lparr>KeyNamespace = ''logging'', KeyName = ''tls''\<rparr>)
       = Some [''key'' \<mapsto> ''new'']"
proof -
  let ?held = "plain_New ''tls'' ''logging'' [''key'' \<mapsto> ''old'']"
  let ?s = "plain_New ''tls'' ''logging'' [''key'' \<mapsto> ''new'']"
  let ?key = "\<lparr>KeyNamespace = ''logging'', KeyName = ''tls''\<rparr>"
  let ?w = "\<lparr>store = 7, calls = []\<rparr> :: (Secret, nat) world"
  have differ: "[''key'' \<mapsto> ''old''] \<noteq> [''key'' \<mapsto> ''new'']"
    by (auto dest: fun_upd_eqD)
  have h1: "\<forall>cur des. Name (snd (MutateDataOnly cur des)) = Name des
                      \<and> Namespace (snd (MutateDataOnly cur des)) = Namespace des"
    by (simp add: MutateDataOnly_def)
  have h2: "client_Get (contended_client ?held)
              \<lparr>KeyNamespace = Namespace ?s, KeyName = Name ?s\<rparr> (store ?w) = (Inr ?held, 7)"
    by (simp add: contended_client_def plain_New_def)
  have h3: "\<not> DataEqual ?held ?s"
    using differ by (simp add: DataEqual_def plain_New_def)
  have key: "\<lparr>KeyNamespace = Namespace ?s, KeyName = Name ?s\<rparr> = ?key"
    by (simp add: plain_New_def)
  from CreateOrUpdate_update_loop [where mutate = MutateDataOnly and equal = DataEqual,
         OF h1 h2 h3]
  obtain evs where
    "calls (snd (CreateOrUpdate (contended_client ?held) ?s DataEqual MutateDataOnly ?w))
       = calls ?w @ GetCall \<lparr>KeyNamespace = Namespace ?s, KeyName = Name ?s\<rparr> (Inr ?held) # evs"
    "evs \<noteq> []"
    "length (filter is_Get evs) \<le> DefaultRetry_Steps"
    "length (filter is_Update evs) \<le> DefaultRetry_Steps"
    "refetch_merge_submit MutateDataOnly \<lparr>KeyNamespace = Namespace ?s, KeyName = Name ?s\<rparr> ?s evs"
    "replay (contended_client ?held) 7 evs
       = Some (store (snd (CreateOrUpdate (contended_client ?held) ?s DataEqual MutateDataOnly ?w)))"
    "\<forall>ev \<in> set (butlast evs). may_continue ev"
    by blast
  then have loop: "\<exists>evs. calls (snd (CreateOrUpdate (contended_client ?held) ?s
                               DataEqual MutateDataOnly ?w))
               = GetCall ?key (Inr ?held) # evs
           \<and> evs \<noteq> []
           \<and> length (filter is_Get evs) \<le> 5
           \<and> length (filter is_Update evs) \<le> 5
           \<and> refetch_merge_submit MutateDataOnly ?key ?s evs
           \<and> replay (contended_client ?held) 7 evs
               = Some (store (snd (CreateOrUpdate (contended_client ?held) ?s
                                     DataEqual MutateDataOnly ?w)))
           \<and> (\<forall>ev \<in> set (butlast evs). may_continue ev)"
    unfolding key by (intro exI [of _ evs]) (simp add: DefaultRetry_Steps_def)
  have exhausted: "fst (CreateOrUpdate (contended_client ?held) ?s DataEqual MutateDataOnly ?w)
       = Some (KVError (StatusError StatusReasonConflict 409 ''object has been modified'')
                 ''failed to update secret'' [(''name'', ''tls''), (''namespace'', ''logging'')])"
    by (simp add: CreateOrUpdate_def RetryOnConflict_def DefaultRetry_Steps_def eval_nat_numeral
          update_attempt_def DataEqual_def MutateDataOnly_def c_Get_def c_Update_def
          contended_client_def plain_New_def Wrap_def IsConflict_def differ Let_def)
  have converged: "CreateOrUpdate (contended_client ?held) ?s DataEqual MutateDataOnly
                          \<lparr>store = 1, calls = []\<rparr>
       = (None,
          \<lparr>store = 0,
           calls = [GetCall ?key (Inr ?held),
                    GetCall ?key (Inr ?held),
                    UpdateCall ?s
                      (Some (StatusError StatusReasonConflict 409 ''object has been modified'')),
                    GetCall ?key (Inr ?held),
                    UpdateCall ?s None]\<rparr>)"
    by (simp add: CreateOrUpdate_def RetryOnConflict_def DefaultRetry_Steps_def eval_nat_numeral
          update_attempt_def DataEqual_def MutateDataOnly_def c_Get_def c_Update_def
          contended_client_def plain_New_def Wrap_def IsConflict_def differ Let_def)
  have stored: "map_option Data
         (store (snd (CreateOrUpdate memory_client ?s DataEqual MutateDataOnly
                        \<lparr>store = [?key \<mapsto> ?held\<lparr>ResourceVersion := ''41''\<rparr>], calls = []\<rparr>))
            ?key)
       = Some [''key'' \<mapsto> ''new'']"
    by (simp add: CreateOrUpdate_def RetryOnConflict_def DefaultRetry_Steps_def eval_nat_numeral
          update_attempt_def DataEqual_def MutateDataOnly_def c_Get_def c_Update_def
          memory_client_def plain_New_def differ Let_def)
  from h1 h2 h3 loop exhausted converged stored show ?thesis
    by (intro conjI) assumption+
qed

text \<open>
  C2, as stated, fails for the secrets. Deleting a secret that the store does not hold:
  the store reports not found, and \<open>Delete\<close> returns that error wrapped, not nil.
  Creating a secret that a get did not find but that exists by the time of the create:
  the store reports already exists, and \<open>CreateOrUpdate\<close> returns that error wrapped.
\<close>

theorem secret_not_found_already_exists_counterexample:
  "client_Delete memory_client (plain_New ''tls'' ''logging'' Map.empty) Map.empty
     = (Some (StatusError StatusReasonNotFound 404 ''not found''), Map.empty)
   \<and> IsNotFound (StatusError StatusReasonNotFound 404 ''not found'')
   \<and> fst (Delete plain_New memory_client \<lparr>KeyNamespace = ''logging'', KeyName = ''tls''\<rparr>
             \<lparr>store = Map.empty, calls = []\<rparr>)
       = Some (KVError (StatusError StatusReasonNotFound 404 ''not found'')
                 ''failed to delete secret''
                 [(''name'', ''tls''), (''namespace'', ''logging'')])
   \<and> client_Create (contended_client (plain_New ''tls'' ''logging'' Map.empty))
        (plain_New ''hidden'' ''logging'' Map.empty) 0
     = (Some (StatusError StatusReasonAlreadyExists 409 ''already exists''), 0)
   \<and> IsAlreadyExists (StatusError StatusReasonAlreadyExists 409 ''already exists'')
   \<and> fst (CreateOrUpdate (contended_client (plain_New ''tls'' ''logging'' Map.empty))
             (plain_New ''hidden'' ''logging'' Map.empty) DataEqual MutateDataOnly
             \<lparr>store = 0, calls = []\<rparr>)
       = Some (KVError (StatusError StatusReasonAlreadyExists 409 ''already exists'')
                 ''failed to create secret''
                 [(''name'', ''hidden''), (''namespace'', ''logging'')])"
  by (simp add: Delete_def CreateOrUpdate_def c_Get_def c_Create_def c_Delete_def
        memory_client_def contended_client_def plain_New_def Wrap_def IsNotFound_def
        IsAlreadyExists_def)

text \<open>
  C2, amended. For the network policy, creating one that already exists and deleting
  one that is not found are treated as success: \<open>EnforceNetworkPolicy\<close> issues one
  create and returns nil when it succeeds or reports already exists, and
  \<open>RelaxNetworkPolicy\<close> issues one delete and returns nil when it succeeds or reports
  not found; every other failure of the store is returned wrapped. For secrets there is
  no such case. \<open>CreateOrUpdate\<close>, when its first get fails: if the get reports not
  found it issues one create and returns nil when that succeeds and otherwise the error
  of the create wrapped with the name and namespace, already exists included; if the get
  fails in any other way it issues nothing more and returns the error of the get
  wrapped. \<open>Delete\<close> issues one delete and returns nil when it succeeds and otherwise
  its error wrapped, not found included.
\<close>

theorem store_failure_policy:
  "fst (EnforceNetworkPolicy nsE ncE ownerRef nwE)
     = (case fst (client_Create ncE ((newNetworkPolicy nsE)\<lparr>OwnerReferences := ownerRef\<rparr>)
                    (store nwE)) of
          None \<Rightarrow> None
        | Some err \<Rightarrow>
            if IsAlreadyExists (Root err) then None
            else Some (Wrap err ''failed to create network policy'' []))
   \<and> calls (snd (EnforceNetworkPolicy nsE ncE ownerRef nwE))
     = calls nwE @
         [CreateCall ((newNetworkPolicy nsE)\<lparr>OwnerReferences := ownerRef\<rparr>)
            (fst (client_Create ncE ((newNetworkPolicy nsE)\<lparr>OwnerReferences := ownerRef\<rparr>)
                    (store nwE)))]
   \<and> fst (RelaxNetworkPolicy nsR ncR nwR)
     = (case fst (client_Delete ncR (newNetworkPolicy nsR) (store nwR)) of
          None \<Rightarrow> None
        | Some err \<Rightarrow>
            if IsNotFound (Root err) then None
            else Some (Wrap err ''failed to delete network policy'' []))
   \<and> calls (snd (RelaxNetworkPolicy nsR ncR nwR))
     = calls nwR @
         [DeleteCall (newNetworkPolicy nsR)
            (fst (client_Delete ncR (newNetworkPolicy nsR) (store nwR)))]
   \<and> (case client_Get cU \<lparr>KeyNamespace = Namespace s, KeyName = Name s\<rparr> (store wU) of
         (Inr current, stU) \<Rightarrow> True
       | (Inl gerr, stU) \<Rightarrow>
           if IsNotFound gerr then
             fst (CreateOrUpdate cU s equal mutate wU)
               = (case fst (client_Create cU s stU) of
                    None \<Rightarrow> None
                  | Some err \<Rightarrow>
                      Some (Wrap err ''failed to create secret''
                              [(''name'', Name s), (''namespace'', Namespace s)]))
             \<and> calls (snd (CreateOrUpdate cU s equal mutate wU))
               = calls wU @
                   [GetCall \<lparr>KeyNamespace = Namespace s, KeyName = Name s\<rparr> (Inl gerr),
                    CreateCall s (fst (client_Create cU s stU))]
           else
             fst (CreateOrUpdate cU s equal mutate wU)
               = Some (Wrap gerr ''failed to get secret''
                         [(''name'', Name s), (''namespace'', Namespace s)])
             \<and> calls (snd (CreateOrUpdate cU s equal mutate wU))
               = calls wU @
                   [GetCall \<lparr>KeyNamespace = Namespace s, KeyName = Name s\<rparr> (Inl gerr)])
   \<and> fst (Delete New cD key wD)
     = (case fst (client_Delete cD (New (KeyName key) (KeyNamespace key) Map.empty) (store wD)) of
          None \<Rightarrow> None
        | Some err \<Rightarrow>
            Some (Wrap err ''failed to delete secret''
                    [(''name'', Name (New (KeyName key) (KeyNamespace key) Map.empty)),
                     (''namespace'',
                      Namespace (New (KeyName key) (KeyNamespace key) Map.empty))]))
   \<and> calls (snd (Delete New cD key wD))
     = calls wD @
         [DeleteCall (New (KeyName key) (KeyNamespace key) Map.empty)
            (fst (client_Delete cD (New (KeyName key) (KeyNamespace key) Map.empty)
                    (store wD)))]"
proof (intro conjI)
  show "fst (EnforceNetworkPolicy nsE ncE ownerRef nwE)
     = (case fst (client_Create ncE ((newNetworkPolicy nsE)\<lparr>OwnerReferences := ownerRef\<rparr>)
                    (store nwE)) of
          None \<Rightarrow> None
        | Some err \<Rightarrow>
            if IsAlreadyExists (Root err) then None
            else Some (Wrap err ''failed to create network policy'' []))"
    by (simp add: EnforceNetworkPolicy_def c_Create_def Let_def
          split: prod.splits option.splits)
  show "calls (snd (EnforceNetworkPolicy nsE ncE ownerRef nwE))
     = calls nwE @
         [CreateCall ((newNetworkPolicy nsE)\<lparr>OwnerReferences := ownerRef\<rparr>)
            (fst (client_Create ncE ((newNetworkPolicy nsE)\<lparr>OwnerReferences := ownerRef\<rparr>)
                    (store nwE)))]"
    by (simp add: EnforceNetworkPolicy_def c_Create_def Let_def
          split: prod.splits option.splits)
  show "fst (RelaxNetworkPolicy nsR ncR nwR)
     = (case fst (client_Delete ncR (newNetworkPolicy nsR) (store nwR)) of
          None \<Rightarrow> None
        | Some err \<Rightarrow>
            if IsNotFound (Root err) then None
            else Some (Wrap err ''failed to delete network policy'' []))"
    by (simp add: RelaxNetworkPolicy_def c_Delete_def Let_def
          split: prod.splits option.splits)
  show "calls (snd (RelaxNetworkPolicy nsR ncR nwR))
     = calls nwR @
         [DeleteCall (newNetworkPolicy nsR)
            (fst (client_Delete ncR (newNetworkPolicy nsR) (store nwR)))]"
    by (simp add: RelaxNetworkPolicy_def c_Delete_def Let_def
          split: prod.splits option.splits)
  show "case client_Get cU \<lparr>KeyNamespace = Namespace s, KeyName = Name s\<rparr> (store wU) of
         (Inr current, stU) \<Rightarrow> True
       | (Inl gerr, stU) \<Rightarrow>
           if IsNotFound gerr then
             fst (CreateOrUpdate cU s equal mutate wU)
               = (case fst (client_Create cU s stU) of
                    None \<Rightarrow> None
                  | Some err \<Rightarrow>
                      Some (Wrap err ''failed to create secret''
                              [(''name'', Name s), (''namespace'', Namespace s)]))
             \<and> calls (snd (CreateOrUpdate cU s equal mutate wU))
               = calls wU @
                   [GetCall \<lparr>KeyNamespace = Namespace s, KeyName = Name s\<rparr> (Inl gerr),
                    CreateCall s (fst (client_Create cU s stU))]
           else
             fst (CreateOrUpdate cU s equal mutate wU)
               = Some (Wrap gerr ''failed to get secret''
                         [(''name'', Name s), (''namespace'', Namespace s)])
             \<and> calls (snd (CreateOrUpdate cU s equal mutate wU))
               = calls wU @
                   [GetCall \<lparr>KeyNamespace = Namespace s, KeyName = Name s\<rparr> (Inl gerr)]"
    by (simp add: CreateOrUpdate_def c_Get_def c_Create_def Let_def
          split: prod.splits sum.splits option.splits)
  show "fst (Delete New cD key wD)
     = (case fst (client_Delete cD (New (KeyName key) (KeyNamespace key) Map.empty) (store wD)) of
          None \<Rightarrow> None
        | Some err \<Rightarrow>
            Some (Wrap err ''failed to delete secret''
                    [(''name'', Name (New (KeyName key) (KeyNamespace key) Map.empty)),
                     (''namespace'',
                      Namespace (New (KeyName key) (KeyNamespace key) Map.empty))]))"
    by (simp add: Delete_def c_Delete_def Let_def split: prod.splits option.splits)
  show "calls (snd (Delete New cD key wD))
     = calls wD @
         [DeleteCall (New (KeyName key) (KeyNamespace key) Map.empty)
            (fst (client_Delete cD (New (KeyName key) (KeyNamespace key) Map.empty)
                    (store wD)))]"
    by (simp add: Delete_def c_Delete_def Let_def split: prod.splits option.splits)
qed

lemma newNetworkPolicy_key:
  "Name (newNetworkPolicy namespace) = ''restricted-es-policy''"
  "Namespace (newNetworkPolicy namespace) = namespace"
  by (simp_all add: newNetworkPolicy_def Let_def)

text \<open>
  The predicates on what a store may answer: a status of reason not found, and a bare
  404 without a reason, are not found; a bare 409 is a conflict but does not already
  exist; a status of a known other reason is neither, whatever its code.
\<close>

lemma status_code_fallback:
  "IsNotFound (StatusError StatusReasonNotFound 404 m)"
  "IsNotFound (StatusError StatusReasonUnknown 404 m)"
  "IsConflict (StatusError StatusReasonUnknown 409 m)"
  "\<not> IsAlreadyExists (StatusError StatusReasonUnknown 409 m)"
  "\<not> IsNotFound (StatusError StatusReasonForbidden 404 m)"
  "\<not> IsConflict (StatusError StatusReasonForbidden 409 m)"
  "\<not> IsNotFound (PlainError m)"
  by (simp_all add: IsNotFound_def IsConflict_def IsAlreadyExists_def knownReasons_def)

theorem store_failure_policy_witness:
  "fst (EnforceNetworkPolicy ''logging'' memory_client []
          \<lparr>store = [\<lparr>KeyNamespace = ''logging'', KeyName = ''restricted-es-policy''\<rparr>
                      \<mapsto> newNetworkPolicy ''logging''],
           calls = []\<rparr>) = None
   \<and> calls (snd (EnforceNetworkPolicy ''logging'' memory_client []
          \<lparr>store = [\<lparr>KeyNamespace = ''logging'', KeyName = ''restricted-es-policy''\<rparr>
                      \<mapsto> newNetworkPolicy ''logging''],
           calls = []\<rparr>))
       = [CreateCall ((newNetworkPolicy ''logging'')\<lparr>OwnerReferences := []\<rparr>)
            (Some (StatusError StatusReasonAlreadyExists 409 ''already exists''))]
   \<and> fst (RelaxNetworkPolicy ''logging'' memory_client
             (\<lparr>store = Map.empty, calls = []\<rparr>
                :: (NetworkPolicy, ObjectKey \<rightharpoonup> NetworkPolicy) world)) = None
   \<and> fst (RelaxNetworkPolicy ''proxied'' (contended_client (newNetworkPolicy ''proxied''))
             \<lparr>store = 0, calls = []\<rparr>) = None
   \<and> calls (snd (RelaxNetworkPolicy ''proxied'' (contended_client (newNetworkPolicy ''proxied''))
             \<lparr>store = 0, calls = []\<rparr>))
       = [DeleteCall (newNetworkPolicy ''proxied'')
            (Some (StatusError StatusReasonUnknown 404 ''404 page not found''))]
   \<and> fst (CreateOrUpdate (contended_client (plain_New ''tls'' ''logging'' Map.empty))
             (plain_New ''hidden'' ''logging'' Map.empty) DataEqual MutateDataOnly
             \<lparr>store = 0, calls = []\<rparr>)
       = Some (KVError (StatusError StatusReasonAlreadyExists 409 ''already exists'')
                 ''failed to create secret''
                 [(''name'', ''hidden''), (''namespace'', ''logging'')])
   \<and> fst (CreateOrUpdate (contended_client (plain_New ''tls'' ''logging'' Map.empty))
             (plain_New ''denied'' ''logging'' Map.empty) DataEqual MutateDataOnly
             \<lparr>store = 0, calls = []\<rparr>)
       = Some (KVError (StatusError StatusReasonForbidden 403 ''forbidden'')
                 ''failed to get secret''
                 [(''name'', ''denied''), (''namespace'', ''logging'')])
   \<and> calls (snd (CreateOrUpdate (contended_client (plain_New ''tls'' ''logging'' Map.empty))
             (plain_New ''denied'' ''logging'' Map.empty) DataEqual MutateDataOnly
             \<lparr>store = 0, calls = []\<rparr>))
       = [GetCall \<lparr>KeyNamespace = ''logging'', KeyName = ''denied''\<rparr>
            (Inl (StatusError StatusReasonForbidden 403 ''forbidden''))]
   \<and> fst (Delete plain_New memory_client \<lparr>KeyNamespace = ''logging'', KeyName = ''tls''\<rparr>
             \<lparr>store = Map.empty, calls = []\<rparr>)
       = Some (KVError (StatusError StatusReasonNotFound 404 ''not found'')
                 ''failed to delete secret''
                 [(''name'', ''tls''), (''namespace'', ''logging'')])
   \<and> fst (Delete plain_New (contended_client (plain_New ''tls'' ''proxied'' Map.empty))
             \<lparr>KeyNamespace = ''proxied'', KeyName = ''tls''\<rparr> \<lparr>store = 0, calls = []\<rparr>)
       = Some (KVError (StatusError StatusReasonUnknown 404 ''404 page not found'')
                 ''failed to delete secret''
                 [(''name'', ''tls''), (''namespace'', ''proxied'')])"
proof -
  let ?nwa = "\<lparr>store = [\<lparr>KeyNamespace = ''logging'', KeyName = ''restricted-es-policy''\<rparr>
                          \<mapsto> newNetworkPolicy ''logging''],
              calls = []\<rparr> :: (NetworkPolicy, ObjectKey \<rightharpoonup> NetworkPolicy) world"
  let ?nwb = "\<lparr>store = Map.empty, calls = []\<rparr>
                :: (NetworkPolicy, ObjectKey \<rightharpoonup> NetworkPolicy) world"
  let ?nwc = "\<lparr>store = 0, calls = []\<rparr> :: (NetworkPolicy, nat) world"
  let ?cu = "contended_client (plain_New ''tls'' ''logging'' Map.empty)"
  let ?cp = "contended_client (plain_New ''tls'' ''proxied'' Map.empty)"
  let ?hidden = "plain_New ''hidden'' ''logging'' Map.empty"
  let ?denied = "plain_New ''denied'' ''logging'' Map.empty"
  let ?wu = "\<lparr>store = 0, calls = []\<rparr> :: (Secret, nat) world"
  let ?wd = "\<lparr>store = Map.empty, calls = []\<rparr> :: (Secret, ObjectKey \<rightharpoonup> Secret) world"
  note status = IsNotFound_def IsAlreadyExists_def knownReasons_def Wrap_def
  have enforce: "fst (EnforceNetworkPolicy ''logging'' memory_client [] ?nwa) = None"
      "calls (snd (EnforceNetworkPolicy ''logging'' memory_client [] ?nwa))
       = [CreateCall ((newNetworkPolicy ''logging'')\<lparr>OwnerReferences := []\<rparr>)
            (Some (StatusError StatusReasonAlreadyExists 409 ''already exists''))]"
    using store_failure_policy [where nsE = "''logging''" and ncE = memory_client
            and ownerRef = "[]" and nwE = ?nwa,
            THEN conjunct1]
          store_failure_policy [where nsE = "''logging''" and ncE = memory_client
            and ownerRef = "[]" and nwE = ?nwa,
            THEN conjunct2, THEN conjunct1]
    by (simp_all add: memory_client_def newNetworkPolicy_key status)
  have relax: "fst (RelaxNetworkPolicy ''logging'' memory_client ?nwb) = None"
    using store_failure_policy [where nsR = "''logging''" and ncR = memory_client
            and nwR = ?nwb,
            THEN conjunct2, THEN conjunct2, THEN conjunct1]
    by (simp add: memory_client_def newNetworkPolicy_key status)
  have relax_bare: "fst (RelaxNetworkPolicy ''proxied''
                           (contended_client (newNetworkPolicy ''proxied'')) ?nwc) = None"
      "calls (snd (RelaxNetworkPolicy ''proxied''
                     (contended_client (newNetworkPolicy ''proxied'')) ?nwc))
       = [DeleteCall (newNetworkPolicy ''proxied'')
            (Some (StatusError StatusReasonUnknown 404 ''404 page not found''))]"
    using store_failure_policy [where nsR = "''proxied''"
            and ncR = "contended_client (newNetworkPolicy ''proxied'')" and nwR = ?nwc,
            THEN conjunct2, THEN conjunct2, THEN conjunct1]
          store_failure_policy [where nsR = "''proxied''"
            and ncR = "contended_client (newNetworkPolicy ''proxied'')" and nwR = ?nwc,
            THEN conjunct2, THEN conjunct2, THEN conjunct2, THEN conjunct1]
    by (simp_all add: contended_client_def newNetworkPolicy_key status)
  have create: "fst (CreateOrUpdate ?cu ?hidden DataEqual MutateDataOnly ?wu)
       = Some (KVError (StatusError StatusReasonAlreadyExists 409 ''already exists'')
                 ''failed to create secret''
                 [(''name'', ''hidden''), (''namespace'', ''logging'')])"
    using store_failure_policy [where cU = ?cu and s = ?hidden and wU = ?wu
            and equal = DataEqual and mutate = MutateDataOnly,
            THEN conjunct2, THEN conjunct2, THEN conjunct2, THEN conjunct2, THEN conjunct1]
    by (simp add: contended_client_def plain_New_def status)
  have get: "fst (CreateOrUpdate ?cu ?denied DataEqual MutateDataOnly ?wu)
       = Some (KVError (StatusError StatusReasonForbidden 403 ''forbidden'')
                 ''failed to get secret''
                 [(''name'', ''denied''), (''namespace'', ''logging'')])"
      "calls (snd (CreateOrUpdate ?cu ?denied DataEqual MutateDataOnly ?wu))
       = [GetCall \<lparr>KeyNamespace = ''logging'', KeyName = ''denied''\<rparr>
            (Inl (StatusError StatusReasonForbidden 403 ''forbidden''))]"
    using store_failure_policy [where cU = ?cu and s = ?denied and wU = ?wu
            and equal = DataEqual and mutate = MutateDataOnly,
            THEN conjunct2, THEN conjunct2, THEN conjunct2, THEN conjunct2, THEN conjunct1]
    by (simp_all add: contended_client_def plain_New_def status)
  have delete: "fst (Delete plain_New memory_client
                       \<lparr>KeyNamespace = ''logging'', KeyName = ''tls''\<rparr> ?wd)
       = Some (KVError (StatusError StatusReasonNotFound 404 ''not found'')
                 ''failed to delete secret''
                 [(''name'', ''tls''), (''namespace'', ''logging'')])"
    using store_failure_policy [where New = plain_New and cD = memory_client
            and key = "\<lparr>KeyNamespace = ''logging'', KeyName = ''tls''\<rparr>" and wD = ?wd,
            THEN conjunct2, THEN conjunct2, THEN conjunct2, THEN conjunct2, THEN conjunct2, THEN conjunct1]
    by (simp add: memory_client_def plain_New_def status)
  have delete_bare: "fst (Delete plain_New ?cp
                            \<lparr>KeyNamespace = ''proxied'', KeyName = ''tls''\<rparr> ?wu)
       = Some (KVError (StatusError StatusReasonUnknown 404 ''404 page not found'')
                 ''failed to delete secret''
                 [(''name'', ''tls''), (''namespace'', ''proxied'')])"
    using store_failure_policy [where New = plain_New and cD = ?cp
            and key = "\<lparr>KeyNamespace = ''proxied'', KeyName = ''tls''\<rparr>" and wD = ?wu,
            THEN conjunct2, THEN conjunct2, THEN conjunct2, THEN conjunct2, THEN conjunct2, THEN conjunct1]
    by (simp add: contended_client_def plain_New_def status)
  from enforce relax relax_bare create get delete delete_bare show ?thesis
    by (intro conjI) assumption+
qed

text \<open>
  C5. \<open>MutateDataOnly\<close> changes nothing of \<open>current\<close> but its data, which become
  those of \<open>desired\<close>: putting the old data back gives \<open>current\<close> again. So does
  \<open>MutateAnnotationsAndDataOnly\<close> for the annotations and the data. In particular the
  revision token of \<open>current\<close> stays, and \<open>desired\<close> is the same after the call.
\<close>

theorem Mutate_frame:
  "fst (MutateDataOnly current desired) = current\<lparr>Data := Data desired\<rparr>
   \<and> (fst (MutateDataOnly current desired))\<lparr>Data := Data current\<rparr> = current
   \<and> ResourceVersion (fst (MutateDataOnly current desired)) = ResourceVersion current
   \<and> snd (MutateDataOnly current desired) = desired
   \<and> fst (MutateAnnotationsAndDataOnly current desired)
       = current\<lparr>Annotations := Annotations desired, Data := Data desired\<rparr>
   \<and> (fst (MutateAnnotationsAndDataOnly current desired))
        \<lparr>Annotations := Annotations current, Data := Data current\<rparr> = current
   \<and> ResourceVersion (fst (MutateAnnotationsAndDataOnly current desired))
       = ResourceVersion current
   \<and> snd (MutateAnnotationsAndDataOnly current desired) = desired"
  by (simp add: MutateDataOnly_def MutateAnnotationsAndDataOnly_def)

theorem Mutate_frame_witness:
  "fst (MutateDataOnly
          ((plain_New ''tls'' ''logging'' [''key'' \<mapsto> ''old''])\<lparr>ResourceVersion := ''41''\<rparr>)
          (plain_New ''tls'' ''logging'' [''key'' \<mapsto> ''new'']))
     = (plain_New ''tls'' ''logging'' [''key'' \<mapsto> ''new''])\<lparr>ResourceVersion := ''41''\<rparr>
   \<and> snd (MutateDataOnly
          ((plain_New ''tls'' ''logging'' [''key'' \<mapsto> ''old''])\<lparr>ResourceVersion := ''41''\<rparr>)
          (plain_New ''tls'' ''logging'' [''key'' \<mapsto> ''new'']))
     = plain_New ''tls'' ''logging'' [''key'' \<mapsto> ''new'']
   \<and> ResourceVersion (fst (MutateAnnotationsAndDataOnly
          ((plain_New ''tls'' ''logging'' [''key'' \<mapsto> ''old''])\<lparr>ResourceVersion := ''41''\<rparr>)
          ((plain_New ''tls'' ''logging'' [''key'' \<mapsto> ''new''])
             \<lparr>Annotations := [''owner'' \<mapsto> ''operator'']\<rparr>))) = ''41''
   \<and> Annotations (fst (MutateAnnotationsAndDataOnly
          ((plain_New ''tls'' ''logging'' [''key'' \<mapsto> ''old''])\<lparr>ResourceVersion := ''41''\<rparr>)
          ((plain_New ''tls'' ''logging'' [''key'' \<mapsto> ''new''])
             \<lparr>Annotations := [''owner'' \<mapsto> ''operator'']\<rparr>))) = [''owner'' \<mapsto> ''operator'']"
  using Mutate_frame [of "(plain_New ''tls'' ''logging'' [''key'' \<mapsto> ''old''])\<lparr>ResourceVersion := ''41''\<rparr>"
          "plain_New ''tls'' ''logging'' [''key'' \<mapsto> ''new'']"]
        Mutate_frame [of "(plain_New ''tls'' ''logging'' [''key'' \<mapsto> ''old''])\<lparr>ResourceVersion := ''41''\<rparr>"
          "(plain_New ''tls'' ''logging'' [''key'' \<mapsto> ''new''])
             \<lparr>Annotations := [''owner'' \<mapsto> ''operator'']\<rparr>"]
  by (simp add: plain_New_def)

section \<open>Properties of GetDataSHA256\<close>

lemma fold_dataHashes:
  "fold (\<lambda>key dataHashes. case m key of Some data \<Rightarrow> dataHashes(key \<mapsto> f data)
                                         | None \<Rightarrow> dataHashes) ks acc
     = (\<lambda>k. if k \<in> set ks \<and> m k \<noteq> None then map_option f (m k) else acc k)"
proof (induction ks arbitrary: acc)
  case Nil
  then show ?case by simp
next
  case (Cons a ks)
  show ?case
    unfolding fold_simps Cons.IH
    by (rule ext) (auto split: option.splits)
qed

lemma dataHashes_all:
  assumes "set ks = dom m"
  shows "fold (\<lambda>key dataHashes. case m key of Some data \<Rightarrow> dataHashes(key \<mapsto> f data)
                                         | None \<Rightarrow> dataHashes) ks Map.empty
     = (\<lambda>k. map_option f (m k))"
  unfolding fold_dataHashes using assms by (auto simp add: fun_eq_iff)

lemma fold_sortedKeys:
  "fold (\<lambda>key sortedKeys. case dh key of Some h \<Rightarrow> sortedKeys @ [key] | None \<Rightarrow> sortedKeys)
        ks acc
     = acc @ filter (\<lambda>k. dh k \<noteq> None) ks"
  by (induction ks arbitrary: acc) (auto split: option.splits)

lemma fold_hash:
  "fold (\<lambda>key hash. hash @ g key) ks acc = acc @ concat (map g ks)"
  by (induction ks arbitrary: acc) auto

text \<open>Whatever the order of the visit, sorting gives the one sorted list of the keys.\<close>

lemma sort_range_order:
  assumes "range_order m ks"
  shows "sort ks = sorted_list_of_set (dom m)"
proof -
  from assms have d: "distinct ks" and s: "set ks = dom m"
    by (simp_all add: range_order_def)
  have "finite (dom m)" using s by (metis List.finite_set)
  then show ?thesis
    using d s by (intro sorted_distinct_set_unique) simp_all
qed

lemma GetDataSHA256_fetched:
  assumes get: "client_Get c key (store w) = (Inr sec, st)"
      and o1: "range_order (Data sec) order1"
      and o2: "range_order (Data sec) order2"
  shows "fst (GetDataSHA256 New Sum256 order1 order2 c key w)
           = concat (map (\<lambda>k. Sum256 (the (Data sec k))) (sorted_list_of_set (dom (Data sec))))"
proof -
  have s1: "set order1 = dom (Data sec)" using o1 by (simp add: range_order_def)
  have s2: "set order2 = dom (Data sec)" using o2 by (simp add: range_order_def)
  have keep: "filter (\<lambda>k. map_option Sum256 (Data sec k) \<noteq> None) order2 = order2"
    using s2 by (auto simp add: filter_id_conv)
  have fin: "finite (dom (Data sec))" using s2 by (metis List.finite_set)
  have chunks:
    "map (\<lambda>key. case map_option Sum256 (Data sec key) of Some h \<Rightarrow> h | None \<Rightarrow> zero_digest)
         (sorted_list_of_set (dom (Data sec)))
       = map (\<lambda>k. Sum256 (the (Data sec k))) (sorted_list_of_set (dom (Data sec)))"
    using fin by (intro map_cong) auto
  show ?thesis
    unfolding GetDataSHA256_def Get_def c_Get_def Let_def get prod.case sum.case option.case
      fst_conv dataHashes_all [OF s1] fold_sortedKeys keep sort_range_order [OF o2] fold_hash
      append_Nil chunks
    by (rule refl)
qed

lemma GetDataSHA256_fetch_failed:
  assumes "client_Get c key (store w) = (Inl err, st)"
  shows "fst (GetDataSHA256 New Sum256 order1 order2 c key w) = ''''"
  using assms by (simp add: GetDataSHA256_def Get_def c_Get_def Let_def)

lemma padded32_length: "\<forall>data. length (padded32 data) = 32"
  by (simp add: padded32_def min_def)

text \<open>
  C8. Two secrets with the same keys and the same value under each key have the same
  \<open>GetDataSHA256\<close>, in whatever order the two \<open>range\<close> loops of either call visit the
  keys: the result is the digests of the values, one after the other in the sorted
  order of the keys. (The second loop ranges over \<open>dataHashes\<close>, which has the keys
  of \<open>sec.Data\<close>.)
\<close>

theorem GetDataSHA256_order_independent:
  assumes "client_Get c key (store w) = (Inr sec, st)"
      and "client_Get c' key' (store w') = (Inr sec', st')"
      and "dom (Data sec) = dom (Data sec')"
      and "\<forall>k \<in> dom (Data sec). Data sec k = Data sec' k"
      and "range_order (Data sec) order1" and "range_order (Data sec) order2"
      and "range_order (Data sec') order1'" and "range_order (Data sec') order2'"
  shows "fst (GetDataSHA256 New Sum256 order1 order2 c key w)
           = fst (GetDataSHA256 New Sum256 order1' order2' c' key' w')
       \<and> fst (GetDataSHA256 New Sum256 order1 order2 c key w)
           = concat (map (\<lambda>k. Sum256 (the (Data sec k))) (sorted_list_of_set (dom (Data sec))))"
proof -
  have fin: "finite (dom (Data sec))"
    using assms(5) by (metis List.finite_set range_order_def)
  have same: "map (\<lambda>k. Sum256 (the (Data sec k))) (sorted_list_of_set (dom (Data sec)))
      = map (\<lambda>k. Sum256 (the (Data sec' k))) (sorted_list_of_set (dom (Data sec)))"
    using fin assms(4) by (intro map_cong) auto
  have left: "fst (GetDataSHA256 New Sum256 order1 order2 c key w)
           = concat (map (\<lambda>k. Sum256 (the (Data sec k))) (sorted_list_of_set (dom (Data sec))))"
    by (rule GetDataSHA256_fetched [OF assms(1) assms(5) assms(6)])
  have right: "fst (GetDataSHA256 New Sum256 order1' order2' c' key' w')
           = concat (map (\<lambda>k. Sum256 (the (Data sec' k))) (sorted_list_of_set (dom (Data sec))))"
    unfolding assms(3) by (rule GetDataSHA256_fetched [OF assms(2) assms(7) assms(8)])
  show ?thesis
    unfolding left right same by simp
qed

theorem GetDataSHA256_order_independent_witness:
  "client_Get memory_client \<lparr>KeyNamespace = ''logging'', KeyName = ''tls''\<rparr>
      (store (\<lparr>store = [\<lparr>KeyNamespace = ''logging'', KeyName = ''tls''\<rparr> \<mapsto>
                          plain_New ''tls'' ''logging'' [''a'' \<mapsto> ''X'', ''b'' \<mapsto> ''Y'']],
               calls = []\<rparr> :: (Secret, ObjectKey \<rightharpoonup> Secret) world))
     = (Inr (plain_New ''tls'' ''logging'' [''a'' \<mapsto> ''X'', ''b'' \<mapsto> ''Y'']),
        [\<lparr>KeyNamespace = ''logging'', KeyName = ''tls''\<rparr> \<mapsto>
           plain_New ''tls'' ''logging'' [''a'' \<mapsto> ''X'', ''b'' \<mapsto> ''Y'']])
   \<and> client_Get memory_client \<lparr>KeyNamespace = ''logging'', KeyName = ''tls''\<rparr>
      (store (\<lparr>store = [\<lparr>KeyNamespace = ''logging'', KeyName = ''tls''\<rparr> \<mapsto>
                          plain_New ''tls'' ''logging'' [''b'' \<mapsto> ''Y'', ''a'' \<mapsto> ''X'']],
               calls = []\<rparr> :: (Secret, ObjectKey \<rightharpoonup> Secret) world))
     = (Inr (plain_New ''tls'' ''logging'' [''b'' \<mapsto> ''Y'', ''a'' \<mapsto> ''X'']),
        [\<lparr>KeyNamespace = ''logging'', KeyName = ''tls''\<rparr> \<mapsto>
           plain_New ''tls'' ''logging'' [''b'' \<mapsto> ''Y'', ''a'' \<mapsto> ''X'']])
   \<and> dom (Data (plain_New ''tls'' ''logging'' [''a'' \<mapsto> ''X'', ''b'' \<mapsto> ''Y'']))
       = dom (Data (plain_New ''tls'' ''logging'' [''b'' \<mapsto> ''Y'', ''a'' \<mapsto> ''X'']))
   \<and> Data (plain_New ''tls'' ''logging'' [''a'' \<mapsto> ''X'', ''b'' \<mapsto> ''Y''])
       = Data (plain_New ''tls'' ''logging'' [''b'' \<mapsto> ''Y'', ''a'' \<mapsto> ''X''])
   \<and> range_order (Data (plain_New ''tls'' ''logging'' [''a'' \<mapsto> ''X'', ''b'' \<mapsto> ''Y'']))
        [''a'', ''b'']
   \<and> range_order (Data (plain_New ''tls'' ''logging'' [''a'' \<mapsto> ''X'', ''b'' \<mapsto> ''Y'']))
        [''b'', ''a'']
   \<and> range_order (Data (plain_New ''tls'' ''logging'' [''b'' \<mapsto> ''Y'', ''a'' \<mapsto> ''X'']))
        [''b'', ''a'']
   \<and> range_order (Data (plain_New ''tls'' ''logging'' [''b'' \<mapsto> ''Y'', ''a'' \<mapsto> ''X'']))
        [''a'', ''b'']
   \<and> fst (GetDataSHA256 plain_New padded32 [''a'', ''b''] [''b'', ''a''] memory_client
             \<lparr>KeyNamespace = ''logging'', KeyName = ''tls''\<rparr>
             \<lparr>store = [\<lparr>KeyNamespace = ''logging'', KeyName = ''tls''\<rparr> \<mapsto>
                         plain_New ''tls'' ''logging'' [''a'' \<mapsto> ''X'', ''b'' \<mapsto> ''Y'']],
              calls = []\<rparr>)
       = fst (GetDataSHA256 plain_New padded32 [''b'', ''a''] [''a'', ''b''] memory_client
                \<lparr>KeyNamespace = ''logging'', KeyName = ''tls''\<rparr>
                \<lparr>store = [\<lparr>KeyNamespace = ''logging'', KeyName = ''tls''\<rparr> \<mapsto>
                            plain_New ''tls'' ''logging'' [''b'' \<mapsto> ''Y'', ''a'' \<mapsto> ''X'']],
                 calls = []\<rparr>)
   \<and> fst (GetDataSHA256 plain_New padded32 [''a'', ''b''] [''b'', ''a''] memory_client
             \<lparr>KeyNamespace = ''logging'', KeyName = ''tls''\<rparr>
             \<lparr>store = [\<lparr>KeyNamespace = ''logging'', KeyName = ''tls''\<rparr> \<mapsto>
                         plain_New ''tls'' ''logging'' [''a'' \<mapsto> ''X'', ''b'' \<mapsto> ''Y'']],
              calls = []\<rparr>)
       = padded32 ''X'' @ padded32 ''Y''"
proof -
  let ?key = "\<lparr>KeyNamespace = ''logging'', KeyName = ''tls''\<rparr>"
  let ?sec = "plain_New ''tls'' ''logging'' [''a'' \<mapsto> ''X'', ''b'' \<mapsto> ''Y'']"
  let ?sec' = "plain_New ''tls'' ''logging'' [''b'' \<mapsto> ''Y'', ''a'' \<mapsto> ''X'']"
  let ?w = "\<lparr>store = [?key \<mapsto> ?sec], calls = []\<rparr> :: (Secret, ObjectKey \<rightharpoonup> Secret) world"
  let ?w' = "\<lparr>store = [?key \<mapsto> ?sec'], calls = []\<rparr> :: (Secret, ObjectKey \<rightharpoonup> Secret) world"
  have h1: "client_Get memory_client ?key (store ?w) = (Inr ?sec, [?key \<mapsto> ?sec])"
    by (simp add: memory_client_def)
  have h2: "client_Get memory_client ?key (store ?w') = (Inr ?sec', [?key \<mapsto> ?sec'])"
    by (simp add: memory_client_def)
  have h3: "dom (Data ?sec) = dom (Data ?sec')"
    by (auto simp add: plain_New_def)
  have h4: "\<forall>k \<in> dom (Data ?sec). Data ?sec k = Data ?sec' k"
    by (auto simp add: plain_New_def)
  have h5: "range_order (Data ?sec) [''a'', ''b'']"
    by (auto simp add: range_order_def plain_New_def)
  have h6: "range_order (Data ?sec) [''b'', ''a'']"
    by (auto simp add: range_order_def plain_New_def)
  have h7: "range_order (Data ?sec') [''b'', ''a'']"
    by (auto simp add: range_order_def plain_New_def)
  have h8: "range_order (Data ?sec') [''a'', ''b'']"
    by (auto simp add: range_order_def plain_New_def)
  have same: "fst (GetDataSHA256 plain_New padded32 [''a'', ''b''] [''b'', ''a''] memory_client ?key ?w)
       = fst (GetDataSHA256 plain_New padded32 [''b'', ''a''] [''a'', ''b''] memory_client ?key ?w')"
    using GetDataSHA256_order_independent [OF h1 h2 h3 h4 h5 h6 h7 h8, of plain_New padded32]
    by (rule conjunct1)
  have run: "fst (GetDataSHA256 plain_New padded32 [''a'', ''b''] [''b'', ''a''] memory_client ?key ?w)
       = padded32 ''X'' @ padded32 ''Y''"
    by (simp add: GetDataSHA256_def Get_def c_Get_def memory_client_def plain_New_def Let_def)
  have eq: "Data ?sec = Data ?sec'"
    by (auto simp add: plain_New_def)
  from h1 h2 h3 eq h5 h6 h7 h8 same run show ?thesis
    by (intro conjI) assumption+
qed

text \<open>
  C9. \<open>GetDataSHA256\<close> returns a string and nothing else, and (a digest being 32
  bytes long) the string is empty exactly when the get of the secret fails or the
  secret has no data: both give the same empty string.
\<close>

theorem GetDataSHA256_empty_iff:
  assumes len: "\<forall>data. length (Sum256 data) = 32"
      and ord: "\<forall>sec st. client_Get c key (store w) = (Inr sec, st)
                  \<longrightarrow> range_order (Data sec) order1 \<and> range_order (Data sec) order2"
  shows "fst (GetDataSHA256 New Sum256 order1 order2 c key w) = ''''
           \<longleftrightarrow> (\<exists>err st. client_Get c key (store w) = (Inl err, st))
               \<or> (\<exists>sec st. client_Get c key (store w) = (Inr sec, st) \<and> Data sec = Map.empty)"
proof (cases "client_Get c key (store w)")
  case (Pair res st)
  show ?thesis
  proof (cases res)
    case (Inl err)
    with Pair show ?thesis
      using GetDataSHA256_fetch_failed [of c key w err st] by simp
  next
    case (Inr sec)
    with Pair have get: "client_Get c key (store w) = (Inr sec, st)" by simp
    from ord get have o1: "range_order (Data sec) order1" and o2: "range_order (Data sec) order2"
      by blast+
    have fin: "finite (dom (Data sec))"
      using o1 by (metis List.finite_set range_order_def)
    have ne: "\<And>data. Sum256 data \<noteq> []"
      using len by (metis length_0_conv zero_neq_numeral)
    have "concat (map (\<lambda>k. Sum256 (the (Data sec k))) (sorted_list_of_set (dom (Data sec)))) = []
            \<longleftrightarrow> dom (Data sec) = {}"
      using fin ne by auto
    then show ?thesis
      using GetDataSHA256_fetched [OF get o1 o2, of New Sum256] get by simp
  qed
qed

theorem GetDataSHA256_empty_iff_witness:
  "(\<forall>data. length (padded32 data) = 32)
   \<and> client_Get memory_client \<lparr>KeyNamespace = ''logging'', KeyName = ''tls''\<rparr>
        (store (\<lparr>store = [\<lparr>KeyNamespace = ''logging'', KeyName = ''tls''\<rparr> \<mapsto>
                            plain_New ''tls'' ''logging'' [''a'' \<mapsto> ''X'']],
                 calls = []\<rparr> :: (Secret, ObjectKey \<rightharpoonup> Secret) world))
       = (Inr (plain_New ''tls'' ''logging'' [''a'' \<mapsto> ''X'']),
          [\<lparr>KeyNamespace = ''logging'', KeyName = ''tls''\<rparr> \<mapsto>
             plain_New ''tls'' ''logging'' [''a'' \<mapsto> ''X'']])
   \<and> range_order (Data (plain_New ''tls'' ''logging'' [''a'' \<mapsto> ''X''])) [''a'']
   \<and> fst (GetDataSHA256 plain_New padded32 [''a''] [''a''] memory_client
             \<lparr>KeyNamespace = ''logging'', KeyName = ''tls''\<rparr>
             \<lparr>store = [\<lparr>KeyNamespace = ''logging'', KeyName = ''tls''\<rparr> \<mapsto>
                         plain_New ''tls'' ''logging'' [''a'' \<mapsto> ''X'']],
              calls = []\<rparr>) \<noteq> ''''
   \<and> client_Get memory_client \<lparr>KeyNamespace = ''logging'', KeyName = ''tls''\<rparr>
        (store (\<lparr>store = [\<lparr>KeyNamespace = ''logging'', KeyName = ''tls''\<rparr> \<mapsto>
                            plain_New ''tls'' ''logging'' Map.empty],
                 calls = []\<rparr> :: (Secret, ObjectKey \<rightharpoonup> Secret) world))
       = (Inr (plain_New ''tls'' ''logging'' Map.empty),
          [\<lparr>KeyNamespace = ''logging'', KeyName = ''tls''\<rparr> \<mapsto>
             plain_New ''tls'' ''logging'' Map.empty])
   \<and> range_order (Data (plain_New ''tls'' ''logging'' Map.empty)) []
   \<and> fst (GetDataSHA256 plain_New padded32 [] [] memory_client
             \<lparr>KeyNamespace = ''logging'', KeyName = ''tls''\<rparr>
             \<lparr>store = [\<lparr>KeyNamespace = ''logging'', KeyName = ''tls''\<rparr> \<mapsto>
                         plain_New ''tls'' ''logging'' Map.empty],
              calls = []\<rparr>) = ''''
   \<and> client_Get memory_client \<lparr>KeyNamespace = ''logging'', KeyName = ''tls''\<rparr>
        (store (\<lparr>store = Map.empty, calls = []\<rparr> :: (Secret, ObjectKey \<rightharpoonup> Secret) world))
       = (Inl (StatusError StatusReasonNotFound 404 ''not found''), Map.empty)
   \<and> fst (GetDataSHA256 plain_New padded32 [''a''] [''a''] memory_client
             \<lparr>KeyNamespace = ''logging'', KeyName = ''tls''\<rparr>
             (\<lparr>store = Map.empty, calls = []\<rparr> :: (Secret, ObjectKey \<rightharpoonup> Secret) world)) = ''''"
proof -
  let ?key = "\<lparr>KeyNamespace = ''logging'', KeyName = ''tls''\<rparr>"
  let ?sec = "plain_New ''tls'' ''logging'' [''a'' \<mapsto> ''X'']"
  let ?none = "plain_New ''tls'' ''logging'' Map.empty"
  let ?w = "\<lparr>store = [?key \<mapsto> ?sec], calls = []\<rparr> :: (Secret, ObjectKey \<rightharpoonup> Secret) world"
  let ?w' = "\<lparr>store = [?key \<mapsto> ?none], calls = []\<rparr> :: (Secret, ObjectKey \<rightharpoonup> Secret) world"
  let ?wn = "\<lparr>store = Map.empty, calls = []\<rparr> :: (Secret, ObjectKey \<rightharpoonup> Secret) world"
  have len: "\<forall>data. length (padded32 data) = 32"
    by (rule padded32_length)
  have ord: "\<forall>sec st. client_Get memory_client ?key (store ?w) = (Inr sec, st)
               \<longrightarrow> range_order (Data sec) [''a''] \<and> range_order (Data sec) [''a'']"
    by (auto simp add: memory_client_def range_order_def plain_New_def)
  have ord': "\<forall>sec st. client_Get memory_client ?key (store ?w') = (Inr sec, st)
               \<longrightarrow> range_order (Data sec) [] \<and> range_order (Data sec) []"
    by (auto simp add: memory_client_def range_order_def plain_New_def)
  have ord0: "\<forall>sec st. client_Get memory_client ?key (store ?wn) = (Inr sec, st)
               \<longrightarrow> range_order (Data sec) [''a''] \<and> range_order (Data sec) [''a'']"
    by (simp add: memory_client_def)
  have get: "client_Get memory_client ?key (store ?w) = (Inr ?sec, [?key \<mapsto> ?sec])"
    by (simp add: memory_client_def)
  have get': "client_Get memory_client ?key (store ?w') = (Inr ?none, [?key \<mapsto> ?none])"
    by (simp add: memory_client_def)
  have get0: "client_Get memory_client ?key (store ?wn)
                = (Inl (StatusError StatusReasonNotFound 404 ''not found''), Map.empty)"
    by (simp add: memory_client_def)
  have data: "Data ?sec \<noteq> Map.empty"
    by (simp add: plain_New_def)
  have data': "Data ?none = Map.empty"
    by (simp add: plain_New_def)
  have full: "fst (GetDataSHA256 plain_New padded32 [''a''] [''a''] memory_client ?key ?w) \<noteq> ''''"
    unfolding GetDataSHA256_empty_iff [OF len ord, of plain_New] get
    using data by simp
  have empty: "fst (GetDataSHA256 plain_New padded32 [] [] memory_client ?key ?w') = ''''"
    unfolding GetDataSHA256_empty_iff [OF len ord', of plain_New] get'
    using data' by simp
  have failed: "fst (GetDataSHA256 plain_New padded32 [''a''] [''a''] memory_client ?key ?wn) = ''''"
    unfolding GetDataSHA256_empty_iff [OF len ord0, of plain_New] get0
    by simp
  have ro: "range_order (Data ?sec) [''a'']"
    by (auto simp add: range_order_def plain_New_def)
  have ro': "range_order (Data ?none) []"
    by (auto simp add: range_order_def plain_New_def)
  from len get ro full get' ro' empty get0 failed show ?thesis
    by (intro conjI) assumption+
qed


end
